theory Spec2Isabelle
  imports Complex_Main "HOL-Library.Sublist" "HOL-Library.Multiset"
begin

section \<open>Entities (models.ts)\<close>

text \<open>
  The five entity classes of \<^verbatim>\<open>models.ts\<close>, one record per table row. Ids are
  JavaScript numbers holding the serial primary key (\<open>int\<close>); a \<^verbatim>\<open>Date\<close> is its
  time value in milliseconds (\<open>int\<close>); a column typed \<^verbatim>\<open>string | null\<close> is a
  \<open>string option\<close>. The classes share the field names \<^verbatim>\<open>id\<close>, \<^verbatim>\<open>createdAt\<close>,
  \<^verbatim>\<open>userId\<close> and \<^verbatim>\<open>tweetId\<close>; a record field is a constant of the theory, so
  those four carry the entity as a prefix. The relation properties (\<^verbatim>\<open>user\<close>,
  \<^verbatim>\<open>tweet\<close>, \<^verbatim>\<open>follower\<close>, \<^verbatim>\<open>followed\<close>) are not stored in the row: the ORM
  fills them by a join when a query asks for them (see \<open>relation_user\<close>).
\<close>

record User =
  user_id :: int
  username :: string
  email :: string
  passwordHash :: string
  bio :: "string option"
  avatarUrl :: "string option"
  user_createdAt :: int

text \<open>
  \<^verbatim>\<open>Tweet.imageUrl\<close> is declared \<^verbatim>\<open>string\<close> on a column that is not nullable. The
  handlers nevertheless test it against \<^verbatim>\<open>null\<close>, so the row keeps an option and
  the insert (\<open>tweetRepo_save\<close>) enforces the column's NOT NULL.
\<close>

record Tweet =
  tweet_id :: int
  imageUrl :: "string option"
  tweetText :: "string option"
  tweet_createdAt :: int
  tweet_userId :: int

record Comment =
  comment_id :: int
  content :: string
  comment_createdAt :: int
  comment_userId :: int
  comment_tweetId :: int

record Like =
  like_id :: int
  like_createdAt :: int
  like_userId :: int
  like_tweetId :: int

text \<open>
  \<^verbatim>\<open>Follow\<close> declares the columns \<^verbatim>\<open>follower_id\<close> and \<^verbatim>\<open>followed_id\<close> (the
  properties \<^verbatim>\<open>followerId\<close> and \<^verbatim>\<open>followedId\<close>) and, apart from them, the two
  relations \<^verbatim>\<open>follower\<close> and \<^verbatim>\<open>followed\<close> with no \<^verbatim>\<open>@JoinColumn\<close>. Such a relation
  has a join column of its own, nullable, that holds the id of the related user;
  the fields \<open>follower\<close> and \<open>followed\<close> are those two columns.
\<close>

record Follow =
  follow_id :: int
  followerId :: int
  followedId :: int
  follow_createdAt :: int
  follower :: "int option"
  followed :: "int option"

text \<open>
  \<^verbatim>\<open>AppDataSource\<close>: the database, one list of rows per table in insertion order.
  No table carries a uniqueness constraint other than the primary key and the
  users' \<^verbatim>\<open>username\<close> and \<^verbatim>\<open>email\<close>; the handlers modelled here insert no user.
\<close>

record Store =
  users :: "User list"
  tweets :: "Tweet list"
  comments :: "Comment list"
  likes :: "Like list"
  follows :: "Follow list"

text \<open>
  What the database generates for the one row a handler call may insert: the
  serial \<^verbatim>\<open>@PrimaryGeneratedColumn\<close> value and the \<^verbatim>\<open>CURRENT_TIMESTAMP\<close> default.
\<close>

record Generated =
  gen_id :: int
  gen_createdAt :: int

text \<open>\<^verbatim>\<open>req.user as JwtPayload\<close>: the authenticated caller.\<close>

record JwtPayload =
  userId :: int

section \<open>Responses\<close>

record TweetResponse =
  r_id :: int
  r_imageUrl :: "string option"
  r_tweetText :: "string option"
  r_createdAt :: int
  r_userId :: int
  r_username :: string
  r_avatarUrl :: "string option"
  r_hasLiked :: bool

record UserProfileResponse =
  p_id :: int
  p_username :: string
  p_bio :: "string option"
  p_avatarUrl :: "string option"
  p_createdAt :: int
  followers :: nat
  following :: nat

record CommentResponse =
  c_id :: int
  c_text :: string
  c_userId :: int
  c_tweetId :: int
  c_username :: string
  c_avatarUrl :: "string option"
  c_createdAt :: int

datatype Payload =
    Message string
  | TweetOut TweetResponse
  | TweetsOut "TweetResponse list"
  | ProfileOut UserProfileResponse
  | ProfilesOut "UserProfileResponse list"
  | CommentOut CommentResponse
  | CommentsOut "CommentResponse list"

text \<open>
  What a handler call ends in: a reply with its HTTP status (the status of a
  \<^verbatim>\<open>TsoaResponse\<close> function, else the route's \<^verbatim>\<open>successStatus\<close>, else 200 for a
  returned value), or an exception that leaves the handler (\<^verbatim>\<open>throw new Error\<close>).
\<close>

datatype Outcome = Reply nat Payload | Thrown string

fun status :: "Outcome \<Rightarrow> nat option" where
  "status (Reply n _) = Some n"
| "status (Thrown _) = None"

section \<open>JavaScript numbers and database integers\<close>

text \<open>
  A \<^verbatim>\<open>@Query()\<close> parameter of type \<^verbatim>\<open>number\<close> is any finite double the request
  carries: a rational number, whole or not, of either sign.
\<close>

type_synonym Number = rat

text \<open>\<^verbatim>\<open>Number.isInteger(x)\<close>\<close>

definition isInteger :: "Number \<Rightarrow> bool" where
  "isInteger x = (x = of_int \<lfloor>x\<rfloor>)"

text \<open>
  An id column is a 32-bit integer and a LIMIT or OFFSET a 64-bit one: the
  database fails a query whose parameter for it lies outside the range. The
  range of an id is written out in \<^verbatim>\<open>followUser\<close>, \<^verbatim>\<open>getUserFollowers\<close> and
  \<^verbatim>\<open>getUserFollowing\<close>, whose theorems speak of the reply for every id; the
  other handlers are written for ids of the column.
\<close>

definition int4 :: "int \<Rightarrow> bool" where
  "int4 i = (- 2147483648 \<le> i \<and> i \<le> 2147483647)"

definition int8 :: "int \<Rightarrow> bool" where
  "int8 i = (- 9223372036854775808 \<le> i \<and> i \<le> 9223372036854775807)"

text \<open>
  A \<^verbatim>\<open>@Res()\<close> parameter is a function the router hands to the controller
  method; calling one that the router did not hand over is a \<^verbatim>\<open>TypeError\<close>.
\<close>

datatype TsoaResponse = Responder | Undefined

fun respond :: "TsoaResponse \<Rightarrow> nat \<Rightarrow> string \<Rightarrow> Outcome" where
  "respond Responder code message = Reply code (Message message)"
| "respond Undefined code message = Thrown ''TypeError: the response function is undefined''"

section \<open>JavaScript strings\<close>

text \<open>
  A string whose content the handlers only compare, test for emptiness or test
  for an ASCII prefix is a \<open>string\<close>. The search query is trimmed and split at
  whitespace, which JavaScript decides per UTF-16 code unit, so a query is the
  list of its code units (\<open>code_units\<close>); \<open>utf16\<close> gives the code units of an
  ASCII literal.
\<close>

type_synonym code_units = "nat list"

definition utf16 :: "string \<Rightarrow> code_units" where
  "utf16 s = map of_char s"

text \<open>
  \<^verbatim>\<open>String.prototype.trim\<close> and the regular expression class \<^verbatim>\<open>\s\<close> agree on
  what whitespace is: the WhiteSpace and LineTerminator code points of
  ECMAScript, all of them single code units. They are U+0009 to U+000D, U+0020,
  U+00A0, U+1680, U+2000 to U+200A, U+2028, U+2029, U+202F, U+205F, U+3000 and
  U+FEFF.
\<close>

definition isSpace :: "nat \<Rightarrow> bool" where
  "isSpace n =
     ((9 \<le> n \<and> n \<le> 13) \<or> n = 32 \<or> n = 160 \<or> n = 5760 \<or> (8192 \<le> n \<and> n \<le> 8202)
      \<or> n = 8232 \<or> n = 8233 \<or> n = 8239 \<or> n = 8287 \<or> n = 12288 \<or> n = 65279)"

text \<open>\<^verbatim>\<open>\w\<close> (without the unicode flag): an ASCII letter, a digit or the underscore.\<close>

definition isWordChar :: "char \<Rightarrow> bool" where
  "isWordChar c =
     (let n = (of_char c :: nat)
      in (48 \<le> n \<and> n \<le> 57) \<or> (65 \<le> n \<and> n \<le> 90) \<or> (97 \<le> n \<and> n \<le> 122) \<or> n = 95)"

text \<open>\<^verbatim>\<open>s.startsWith(p)\<close>\<close>

fun startsWith :: "string \<Rightarrow> string \<Rightarrow> bool" where
  "startsWith s [] = True"
| "startsWith [] (p # ps) = False"
| "startsWith (c # cs) (p # ps) = (c = p \<and> startsWith cs ps)"

text \<open>\<^verbatim>\<open>s.trim()\<close>\<close>

definition trim :: "code_units \<Rightarrow> code_units" where
  "trim s = rev (dropWhile isSpace (rev (dropWhile isSpace s)))"

text \<open>
  \<^verbatim>\<open>s.split(/\s+/)\<close>: the pieces between the maximal runs of whitespace; a run
  at the start or at the end of the string leaves an empty piece there, and the
  empty string splits into one empty piece.
\<close>

function split_ws :: "code_units \<Rightarrow> code_units list" where
  "split_ws [] = [[]]"
| "split_ws (c # cs) =
     (if isSpace c then [] # split_ws (dropWhile isSpace cs)
      else (case split_ws cs of
              w # ws \<Rightarrow> (c # w) # ws
            | [] \<Rightarrow> [[c]]))"
  by pat_completeness auto
termination
  by (relation "measure length") (auto simp: less_Suc_eq_le length_dropWhile_le)

text \<open>\<^verbatim>\<open>pieces.join(sep)\<close>\<close>

fun join :: "'a list \<Rightarrow> 'a list list \<Rightarrow> 'a list" where
  "join sep [] = []"
| "join sep [w] = w"
| "join sep (w # v # ws) = w @ sep @ join sep (v # ws)"

text \<open>
  The template literal \<^verbatim>\<open>`${n}`\<close> of an integral number: its decimal digits, with
  a minus sign when negative.
\<close>

function digits :: "nat \<Rightarrow> string" where
  "digits n = (if n < 10 then [char_of (48 + n)] else digits (n div 10) @ [char_of (48 + n mod 10)])"
  by pat_completeness auto
termination
  by (relation "measure id") auto

definition Number_toString :: "int \<Rightarrow> string" where
  "Number_toString i = (if i < 0 then CHR ''-'' # digits (nat (- i)) else digits (nat i))"

text \<open>
  \<^verbatim>\<open>x || "unknown"\<close> on a string that may be missing: the empty string is falsy
  too. \<^verbatim>\<open>x || null\<close> likewise turns the empty string into \<^verbatim>\<open>null\<close>.
\<close>

definition or_unknown :: "string option \<Rightarrow> string" where
  "or_unknown x = (case x of None \<Rightarrow> ''unknown'' | Some v \<Rightarrow> if v = [] then ''unknown'' else v)"

definition or_null :: "string option \<Rightarrow> string option" where
  "or_null x = (case x of None \<Rightarrow> None | Some v \<Rightarrow> if v = [] then None else Some v)"

section \<open>External collaborators\<close>

text \<open>
  The object storage, the database's full-text match and the authentication
  middleware are not part of the sources; the handlers take them as parameters.
  \<^item> \<open>uploadBase64ToObjectStorage data fileType\<close> resolves to an upload result or
    rejects with an error message (\<open>Inl\<close>).
  \<^item> \<open>fts_match q text\<close> is the database's
    \<^verbatim>\<open>to_tsvector(tweets.tweet_text) @@ plainto_tsquery(q)\<close> on a row's text column.
  \<^item> \<open>getCurrentUser\<close> is the payload \<^verbatim>\<open>getCurrentUser()\<close> returns.
\<close>

record UploadResult =
  objectUrl :: string

record Collaborators =
  uploadBase64ToObjectStorage :: "string \<Rightarrow> string \<Rightarrow> string + UploadResult"
  fts_match :: "code_units \<Rightarrow> string option \<Rightarrow> bool"
  getCurrentUser :: JwtPayload

section \<open>Repository operations (TypeORM)\<close>

text \<open>
  A repository call is a query on the table's rows: \<^verbatim>\<open>findOneBy\<close> is the first row
  that meets the criteria, \<^verbatim>\<open>find\<close> with \<^verbatim>\<open>where\<close> the rows that meet them,
  \<^verbatim>\<open>count\<close> their number, \<^verbatim>\<open>delete\<close> removes them and reports how many, and
  \<^verbatim>\<open>save\<close> of a new entity appends a row carrying the generated id and creation
  time. A \<^verbatim>\<open>@ManyToOne\<close> relation with a \<^verbatim>\<open>@JoinColumn\<close> on \<^verbatim>\<open>user_id\<close> or
  \<^verbatim>\<open>tweet_id\<close> is a foreign key: an insert whose referenced row is missing is
  rejected.
\<close>

definition userRepo_findOneBy_id :: "Store \<Rightarrow> int \<Rightarrow> User option" where
  "userRepo_findOneBy_id s i = find (\<lambda>u. user_id u = i) (users s)"

definition tweetRepo_findOneBy_id :: "Store \<Rightarrow> int \<Rightarrow> Tweet option" where
  "tweetRepo_findOneBy_id s i = find (\<lambda>t. tweet_id t = i) (tweets s)"

text \<open>
  \<^verbatim>\<open>relations: ["user"]\<close> and \<^verbatim>\<open>["tweet"]\<close>: the left join that fills the relation
  property of a row from the id its join column holds; \<^verbatim>\<open>null\<close> when no such row
  exists. \<^verbatim>\<open>relations: ["follower"]\<close> and \<^verbatim>\<open>["followed"]\<close> join on the relation's
  own column of a Follow row (\<open>relation_of\<close>), which is \<^verbatim>\<open>null\<close> unless something
  has set it.
\<close>

definition relation_user :: "Store \<Rightarrow> int \<Rightarrow> User option" where
  "relation_user s uid = find (\<lambda>u. user_id u = uid) (users s)"

definition relation_tweet :: "Store \<Rightarrow> int \<Rightarrow> Tweet option" where
  "relation_tweet s tid = find (\<lambda>t. tweet_id t = tid) (tweets s)"

definition relation_of :: "Store \<Rightarrow> int option \<Rightarrow> User option" where
  "relation_of s column = (case column of None \<Rightarrow> None | Some uid \<Rightarrow> relation_user s uid)"

text \<open>
  \<^verbatim>\<open>order: { createdAt: "DESC" }\<close> and \<^verbatim>\<open>orderBy("tweets.createdAt", "DESC")\<close>: the
  rows by creation time, newest first; the paged query of the ORM orders rows of
  equal creation time by ascending id. The sort is stable, so sorting by id
  first leaves equal creation times in id order.
\<close>

definition order_createdAt_DESC :: "('a \<Rightarrow> int) \<Rightarrow> ('a \<Rightarrow> int) \<Rightarrow> 'a list \<Rightarrow> 'a list" where
  "order_createdAt_DESC createdAt ident rows =
     sort_key (\<lambda>r. - createdAt r) (sort_key ident rows)"

text \<open>
  \<^verbatim>\<open>take\<close> and \<^verbatim>\<open>skip\<close>. The ORM writes a LIMIT only for a \<^verbatim>\<open>take\<close> that is truthy
  and an OFFSET only for a truthy \<^verbatim>\<open>skip\<close>, so a \<^verbatim>\<open>take\<close> of 0 limits nothing. The
  database fails the query for a LIMIT or OFFSET that is negative or beyond 64
  bits. A LIMIT or OFFSET that is not a whole number is taken to fail the query
  as well; the theorems below are about whole numbers only.
\<close>

definition take_skip :: "Number \<Rightarrow> Number \<Rightarrow> 'a list \<Rightarrow> string + 'a list" where
  "take_skip limit offset rows =
     (if \<not> isInteger limit \<or> \<not> isInteger offset
      then Inl ''invalid input syntax for type bigint''
      else if limit < 0 then Inl ''LIMIT must not be negative''
      else if offset < 0 then Inl ''OFFSET must not be negative''
      else if \<not> int8 \<lfloor>limit\<rfloor> \<or> \<not> int8 \<lfloor>offset\<rfloor>
      then Inl ''value out of range for type bigint''
      else if limit = 0 then Inr (drop (nat \<lfloor>offset\<rfloor>) rows)
      else Inr (take (nat \<lfloor>limit\<rfloor>) (drop (nat \<lfloor>offset\<rfloor>) rows)))"

text \<open>
  \<^verbatim>\<open>tweetRepo.save(tweetRepo.create({ userId, imageUrl, tweetText }))\<close>: the
  \<^verbatim>\<open>image_url\<close> column is NOT NULL and \<^verbatim>\<open>user_id\<close> references \<^verbatim>\<open>users\<close>.
\<close>

definition tweetRepo_save ::
  "Generated \<Rightarrow> Store \<Rightarrow> int \<Rightarrow> string option \<Rightarrow> string option \<Rightarrow> string + Tweet \<times> Store" where
  "tweetRepo_save g s uid img txt =
     (case img of
        None \<Rightarrow> Inl ''null value in column image_url violates not-null constraint''
      | Some url \<Rightarrow>
          if userRepo_findOneBy_id s uid = None
          then Inl ''insert on table tweets violates foreign key constraint''
          else
            (let t = \<lparr>tweet_id = gen_id g, imageUrl = Some url, tweetText = txt,
                      tweet_createdAt = gen_createdAt g, tweet_userId = uid\<rparr>
             in Inr (t, s\<lparr>tweets := tweets s @ [t]\<rparr>)))"

text \<open>\<^verbatim>\<open>Like.create({ tweet, user, tweetId, userId }).save()\<close>\<close>

definition Like_save :: "Generated \<Rightarrow> Store \<Rightarrow> int \<Rightarrow> int \<Rightarrow> string + Like \<times> Store" where
  "Like_save g s uid tid =
     (if userRepo_findOneBy_id s uid = None \<or> tweetRepo_findOneBy_id s tid = None
      then Inl ''insert on table likes violates foreign key constraint''
      else
        (let l = \<lparr>like_id = gen_id g, like_createdAt = gen_createdAt g,
                  like_userId = uid, like_tweetId = tid\<rparr>
         in Inr (l, s\<lparr>likes := likes s @ [l]\<rparr>)))"

text \<open>\<^verbatim>\<open>Comment.create({ tweet, user, tweetId, userId, content }).save()\<close>\<close>

definition Comment_save ::
  "Generated \<Rightarrow> Store \<Rightarrow> int \<Rightarrow> int \<Rightarrow> string \<Rightarrow> string + Comment \<times> Store" where
  "Comment_save g s uid tid txt =
     (if userRepo_findOneBy_id s uid = None \<or> tweetRepo_findOneBy_id s tid = None
      then Inl ''insert on table comments violates foreign key constraint''
      else
        (let c = \<lparr>comment_id = gen_id g, content = txt, comment_createdAt = gen_createdAt g,
                  comment_userId = uid, comment_tweetId = tid\<rparr>
         in Inr (c, s\<lparr>comments := comments s @ [c]\<rparr>)))"

text \<open>\<^verbatim>\<open>AppDataSource.getRepository(Like).delete({ tweetId, userId })\<close>\<close>

definition likeRepo_delete :: "Store \<Rightarrow> int \<Rightarrow> int \<Rightarrow> Store" where
  "likeRepo_delete s tid uid =
     s\<lparr>likes := filter (\<lambda>l. \<not> (like_tweetId l = tid \<and> like_userId l = uid)) (likes s)\<rparr>"

text \<open>
  The likes the handlers of tweets load for the caller:
  \<^verbatim>\<open>currentUser && currentUser.userId ? likeRepo.find({ where: { userId, tweetId: In(ids) } }) : []\<close>.
  A missing caller and the user id 0 are both falsy.
\<close>

definition currentUser_likes :: "Store \<Rightarrow> JwtPayload option \<Rightarrow> int list \<Rightarrow> Like list" where
  "currentUser_likes s currentUser ids =
     (case currentUser of
        None \<Rightarrow> []
      | Some cu \<Rightarrow>
          if userId cu \<noteq> 0
          then filter (\<lambda>l. like_userId l = userId cu \<and> like_tweetId l \<in> set ids) (likes s)
          else [])"

text \<open>
  \<^verbatim>\<open>likes.some((like) => like.tweetId === id && like.userId === currentUser?.userId)\<close>
\<close>

definition hasLiked :: "Like list \<Rightarrow> JwtPayload option \<Rightarrow> int \<Rightarrow> bool" where
  "hasLiked ls currentUser i =
     list_ex (\<lambda>l. like_tweetId l = i \<and> Some (like_userId l) = map_option userId currentUser) ls"

text \<open>\<^verbatim>\<open>followRepo.findOneBy({ followerId, followedId })\<close>\<close>

definition followRepo_findOneBy :: "Store \<Rightarrow> int \<Rightarrow> int \<Rightarrow> Follow option" where
  "followRepo_findOneBy s a b =
     find (\<lambda>f. followerId f = a \<and> followedId f = b) (follows s)"

text \<open>
  \<^verbatim>\<open>followRepo.save(followRepo.create({ followerId, followedId }))\<close>: the insert of
  a Follow row. The entity declares no check, unique or foreign-key constraint
  on the two columns, so the insert has no failing branch. The entity it saves
  has no \<^verbatim>\<open>follower\<close> and no \<^verbatim>\<open>followed\<close>, so the two relation columns are null.
\<close>

definition followRepo_save :: "Generated \<Rightarrow> Store \<Rightarrow> int \<Rightarrow> int \<Rightarrow> Store" where
  "followRepo_save g s a b =
     s\<lparr>follows := follows s @
        [\<lparr>follow_id = gen_id g, followerId = a, followedId = b,
          follow_createdAt = gen_createdAt g, follower = None, followed = None\<rparr>]\<rparr>"

text \<open>\<^verbatim>\<open>followRepo.delete({ followerId, followedId })\<close> with its \<^verbatim>\<open>affected\<close> count.\<close>

definition followRepo_delete :: "Store \<Rightarrow> int \<Rightarrow> int \<Rightarrow> nat \<times> Store" where
  "followRepo_delete s a b =
     (length (filter (\<lambda>f. followerId f = a \<and> followedId f = b) (follows s)),
      s\<lparr>follows := filter (\<lambda>f. \<not> (followerId f = a \<and> followedId f = b)) (follows s)\<rparr>)"

text \<open>\<^verbatim>\<open>followRepo.count({ where: { followedId } })\<close> and \<^verbatim>\<open>{ where: { followerId } }\<close>\<close>

definition followRepo_count_followedId :: "Store \<Rightarrow> int \<Rightarrow> nat" where
  "followRepo_count_followedId s i = length (filter (\<lambda>f. followedId f = i) (follows s))"

definition followRepo_count_followerId :: "Store \<Rightarrow> int \<Rightarrow> nat" where
  "followRepo_count_followerId s i = length (filter (\<lambda>f. followerId f = i) (follows s))"

section \<open>UserController (user.controller.ts)\<close>

text \<open>
  \<^verbatim>\<open>followUser\<close> compares the two ids before it asks the database anything. Its
  first query looks the target up by id and its second looks the Follow row up by
  both ids; a query with an id beyond the 32-bit column fails, and the handler
  has no \<^verbatim>\<open>try\<close>.
\<close>

definition followUser :: "Generated \<Rightarrow> JwtPayload \<Rightarrow> Store \<Rightarrow> int \<Rightarrow> Outcome \<times> Store" where
  "followUser g currentUser s userIdToFollow =
     (if userId currentUser = userIdToFollow
      then (Reply 400 (Message ''You cannot follow yourself.''), s)
      else if \<not> int4 userIdToFollow
      then (Thrown ''value out of range for type integer'', s)
      else case userRepo_findOneBy_id s userIdToFollow of
        None \<Rightarrow> (Reply 404 (Message ''User to follow not found.''), s)
      | Some userToFollow \<Rightarrow>
          if \<not> int4 (userId currentUser)
          then (Thrown ''value out of range for type integer'', s)
          else
            (case followRepo_findOneBy s (userId currentUser) userIdToFollow of
               Some exists \<Rightarrow>
                 (Reply 409 (Message ''You are already following this user.''), s)
             | None \<Rightarrow>
                 (Reply 200
                    (Message (''Successfully followed user '' @ Number_toString userIdToFollow)),
                  followRepo_save g s (userId currentUser) userIdToFollow)))"

definition unfollowUser :: "JwtPayload \<Rightarrow> Store \<Rightarrow> int \<Rightarrow> Outcome \<times> Store" where
  "unfollowUser currentUser s userIdToUnfollow =
     (case followRepo_delete s (userId currentUser) userIdToUnfollow of
        (affected, s') \<Rightarrow>
          if affected = 0
          then (Reply 404 (Message ''Follow relationship not found.''), s')
          else (Reply 200
                  (Message (''Successfully unfollowed user '' @ Number_toString userIdToUnfollow)),
                s'))"

definition getUserProfile :: "Store \<Rightarrow> int \<Rightarrow> Outcome \<times> Store" where
  "getUserProfile s uid =
     (case userRepo_findOneBy_id s uid of
        None \<Rightarrow> (Reply 404 (Message ''User not found''), s)
      | Some user \<Rightarrow>
          (Reply 200
             (ProfileOut
                \<lparr>p_id = user_id user, p_username = username user, p_bio = bio user,
                 p_avatarUrl = avatarUrl user, p_createdAt = user_createdAt user,
                 followers = followRepo_count_followedId s uid,
                 following = followRepo_count_followerId s uid\<rparr>),
           s))"

text \<open>
  The profile \<^verbatim>\<open>getUserFollowers\<close> and \<^verbatim>\<open>getUserFollowing\<close> build from a joined
  user: both counts are the constant 0.
\<close>

definition profile_of_relation :: "User \<Rightarrow> UserProfileResponse" where
  "profile_of_relation u =
     \<lparr>p_id = user_id u, p_username = username u, p_bio = bio u,
      p_avatarUrl = avatarUrl u, p_createdAt = user_createdAt u,
      followers = 0, following = 0\<rparr>"

text \<open>
  \<^verbatim>\<open>getUserFollowers\<close> and \<^verbatim>\<open>getUserFollowing\<close>, with the \<^verbatim>\<open>notFound\<close> argument
  they are called with. The query fails for a user id beyond the 32-bit column.
  The \<^verbatim>\<open>filter\<close> drops the rows whose joined user is \<^verbatim>\<open>null\<close> and the \<^verbatim>\<open>map\<close>
  builds a profile from the joined user of each row left.
\<close>

definition getUserFollowers :: "TsoaResponse \<Rightarrow> Store \<Rightarrow> int \<Rightarrow> Outcome \<times> Store" where
  "getUserFollowers notFound s uid =
     (if \<not> int4 uid
      then (Thrown ''value out of range for type integer'', s)
      else
        (let rows = filter (\<lambda>f. followedId f = uid) (follows s)
         in if length rows = 0
            then (respond notFound 404 ''No followers found for this user.'', s)
            else (Reply 200
                    (ProfilesOut
                       (List.map_filter
                          (\<lambda>f. map_option profile_of_relation (relation_of s (follower f)))
                          rows)),
                  s)))"

definition getUserFollowing :: "TsoaResponse \<Rightarrow> Store \<Rightarrow> int \<Rightarrow> Outcome \<times> Store" where
  "getUserFollowing notFound s uid =
     (if \<not> int4 uid
      then (Thrown ''value out of range for type integer'', s)
      else
        (let rows = filter (\<lambda>f. followerId f = uid) (follows s)
         in if length rows = 0
            then (respond notFound 404 ''No following found for this user.'', s)
            else (Reply 200
                    (ProfilesOut
                       (List.map_filter
                          (\<lambda>f. map_option profile_of_relation (relation_of s (followed f)))
                          rows)),
                  s)))"

text \<open>
  \<^verbatim>\<open>getUserLikes\<close> answers with one entry per Like row of the user; the entry's
  \<^verbatim>\<open>id\<close> and \<^verbatim>\<open>createdAt\<close> are the Like row's, and the caller's likes are looked
  up by those ids.
\<close>

definition getUserLikes :: "Store \<Rightarrow> JwtPayload option \<Rightarrow> int \<Rightarrow> Outcome \<times> Store" where
  "getUserLikes s currentUser uid =
     (case userRepo_findOneBy_id s uid of
        None \<Rightarrow> (Reply 404 (Message ''User not found''), s)
      | Some user \<Rightarrow>
          (let rows = filter (\<lambda>l. like_userId l = uid) (likes s)
           in if length rows = 0
              then (Reply 404 (Message ''No liked tweets found for this user.''), s)
              else
                (let likedTweets = currentUser_likes s currentUser (map like_id rows)
                 in (Reply 200
                       (TweetsOut
                          (map (\<lambda>l.
                                  \<lparr>r_id = like_id l,
                                   r_imageUrl = Option.bind (relation_tweet s (like_tweetId l)) imageUrl,
                                   r_tweetText = Option.bind (relation_tweet s (like_tweetId l)) tweetText,
                                   r_createdAt = like_createdAt l,
                                   r_userId = like_userId l,
                                   r_username =
                                     or_unknown (map_option username (relation_user s (like_userId l))),
                                   r_avatarUrl =
                                     or_null (Option.bind (relation_user s (like_userId l)) avatarUrl),
                                   r_hasLiked = hasLiked likedTweets currentUser (like_id l)\<rparr>)
                             (filter (\<lambda>l. relation_user s (like_userId l) \<noteq> None
                                          \<and> relation_tweet s (like_tweetId l) \<noteq> None)
                                rows))),
                     s))))"

section \<open>TweetController (tweet.controller.ts)\<close>

text \<open>
  \<^verbatim>\<open>CreateTweetBase64Input\<close>. The handler reads \<^verbatim>\<open>body.tweetText || null\<close>, so the
  field is an option: \<open>None\<close> is a body without the property.
\<close>

record CreateTweetBase64Input =
  imageBase64 :: string
  imageFileType :: string
  body_tweetText :: "string option"

text \<open>
  \<^verbatim>\<open>imageBase64.match(/^data:(image\/\w+);base64,/)\<close> and the \<^verbatim>\<open>substring\<close> that
  drops the matched prefix. After \<^verbatim>\<open>data:image/\<close> the match takes the longest run
  of word characters, which must not be empty, and then needs \<^verbatim>\<open>;base64,\<close>.
\<close>

definition strip_data_prefix :: "string \<Rightarrow> string" where
  "strip_data_prefix s =
     (if startsWith s ''data:image/''
      then (let rest = drop 11 s; after = dropWhile isWordChar rest
            in if takeWhile isWordChar rest \<noteq> [] \<and> startsWith after '';base64,''
               then drop 8 after else s)
      else s)"

text \<open>The response entry the handlers build from a tweet row and its joined user.\<close>

definition tweet_response :: "Store \<Rightarrow> Like list \<Rightarrow> JwtPayload option \<Rightarrow> Tweet \<Rightarrow> TweetResponse" where
  "tweet_response s ls currentUser tweet =
     \<lparr>r_id = tweet_id tweet,
      r_imageUrl = imageUrl tweet,
      r_tweetText = tweetText tweet,
      r_createdAt = tweet_createdAt tweet,
      r_userId = tweet_userId tweet,
      r_username = or_unknown (map_option username (relation_user s (tweet_userId tweet))),
      r_avatarUrl = or_null (Option.bind (relation_user s (tweet_userId tweet)) avatarUrl),
      r_hasLiked = hasLiked ls currentUser (tweet_id tweet)\<rparr>"

definition createTweet ::
  "Collaborators \<Rightarrow> Generated \<Rightarrow> JwtPayload \<Rightarrow> Store \<Rightarrow> CreateTweetBase64Input
     \<Rightarrow> Outcome \<times> Store" where
  "createTweet env g currentUser s body =
     (if imageBase64 body = [] \<or> \<not> startsWith (imageFileType body) ''image/''
      then (Reply 400 (Message ''imageBase64 and a valid imageFileType are required.''), s)
      else
        (let base64Data = strip_data_prefix (imageBase64 body)
         in case uploadBase64ToObjectStorage env base64Data (imageFileType body) of
              Inl message \<Rightarrow>
                (Reply 500 (Message (if message = [] then ''Failed to create tweet.'' else message)),
                 s)
            | Inr uploadResult \<Rightarrow>
                (case tweetRepo_save g s (userId currentUser) (Some (objectUrl uploadResult))
                        (or_null (body_tweetText body)) of
                   Inl message \<Rightarrow>
                     (Reply 500
                        (Message (if message = [] then ''Failed to create tweet.'' else message)),
                      s)
                 | Inr (savedTweet, s') \<Rightarrow>
                     (let user = userRepo_findOneBy_id s' (userId currentUser)
                      in (Reply 200
                            (TweetOut
                               \<lparr>r_id = tweet_id savedTweet,
                                r_imageUrl = imageUrl savedTweet,
                                r_tweetText = tweetText savedTweet,
                                r_createdAt = tweet_createdAt savedTweet,
                                r_userId = tweet_userId savedTweet,
                                r_username = or_unknown (map_option username user),
                                r_avatarUrl = or_null (Option.bind user avatarUrl),
                                r_hasLiked = False\<rparr>),
                          s')))))"

text \<open>
  \<^verbatim>\<open>@Query() limit: number = 10\<close> and \<^verbatim>\<open>offset: number = 0\<close>: an omitted query
  parameter is \<open>None\<close> and takes the default.
\<close>

definition limit_default :: "Number option \<Rightarrow> Number" where
  "limit_default limit = (case limit of None \<Rightarrow> 10 | Some n \<Rightarrow> n)"

definition offset_default :: "Number option \<Rightarrow> Number" where
  "offset_default offset = (case offset of None \<Rightarrow> 0 | Some n \<Rightarrow> n)"

text \<open>
  \<^verbatim>\<open>tweetRepo.find({ relations: ["user"], order: { createdAt: "DESC" }, take, skip })\<close>
\<close>

definition tweetRepo_find_page :: "Store \<Rightarrow> Number \<Rightarrow> Number \<Rightarrow> string + Tweet list" where
  "tweetRepo_find_page s limit offset =
     take_skip limit offset (order_createdAt_DESC tweet_createdAt tweet_id (tweets s))"

text \<open>The handler has no \<^verbatim>\<open>try\<close>: a query that fails leaves it as an exception.\<close>

definition getFeedTweets ::
  "Store \<Rightarrow> JwtPayload option \<Rightarrow> Number option \<Rightarrow> Number option \<Rightarrow> Outcome \<times> Store" where
  "getFeedTweets s currentUser limit offset =
     (case tweetRepo_find_page s (limit_default limit) (offset_default offset) of
        Inl message \<Rightarrow> (Thrown message, s)
      | Inr page \<Rightarrow>
          (let ls = currentUser_likes s currentUser (map tweet_id page)
           in (Reply 200
                 (TweetsOut
                    (map (tweet_response s ls currentUser)
                       (filter (\<lambda>tweet. relation_user s (tweet_userId tweet) \<noteq> None
                                       \<and> imageUrl tweet \<noteq> None)
                          page))),
               s)))"

text \<open>\<^verbatim>\<open>query.trim().split(/\s+/).join(" & ")\<close>\<close>

definition searchTerm :: "code_units \<Rightarrow> code_units" where
  "searchTerm query = join (utf16 '' & '') (split_ws (trim query))"

text \<open>
  The query builder of \<^verbatim>\<open>searchTweets\<close>: the rows the full-text match accepts,
  newest first, then \<^verbatim>\<open>take\<close> and \<^verbatim>\<open>skip\<close>.
\<close>

definition tweetRepo_search_page ::
  "Collaborators \<Rightarrow> Store \<Rightarrow> code_units \<Rightarrow> Number \<Rightarrow> Number \<Rightarrow> string + Tweet list" where
  "tweetRepo_search_page env s term limit offset =
     take_skip limit offset
       (order_createdAt_DESC tweet_createdAt tweet_id
          (filter (\<lambda>tweet. fts_match env term (tweetText tweet)) (tweets s)))"

definition searchTweets ::
  "Collaborators \<Rightarrow> Store \<Rightarrow> JwtPayload option \<Rightarrow> code_units \<Rightarrow> Number option
     \<Rightarrow> Number option \<Rightarrow> Outcome \<times> Store" where
  "searchTweets env s currentUser query limit offset =
     (if trim query = []
      then (Reply 400 (Message ''Search query cannot be empty''), s)
      else
        (case tweetRepo_search_page env s (searchTerm query)
                (limit_default limit) (offset_default offset) of
           Inl message \<Rightarrow> (Thrown message, s)
         | Inr page \<Rightarrow>
             (let ls = currentUser_likes s currentUser (map tweet_id page)
              in (Reply 200 (TweetsOut (map (tweet_response s ls currentUser) page)), s))))"

definition getTweetById :: "Store \<Rightarrow> JwtPayload option \<Rightarrow> int \<Rightarrow> Outcome \<times> Store" where
  "getTweetById s currentUser tweetId =
     (case tweetRepo_findOneBy_id s tweetId of
        None \<Rightarrow> (Reply 404 (Message ''Tweet not found''), s)
      | Some tweet \<Rightarrow>
          (let ls = currentUser_likes s currentUser [tweet_id tweet]
           in (Reply 200 (TweetOut (tweet_response s ls currentUser tweet)), s)))"

section \<open>InteractionController (interaction.controller.ts)\<close>

definition likeTweet :: "Collaborators \<Rightarrow> Generated \<Rightarrow> Store \<Rightarrow> int \<Rightarrow> Outcome \<times> Store" where
  "likeTweet env g s tweetId =
     (let currentUser = getCurrentUser env
      in case tweetRepo_findOneBy_id s tweetId of
           None \<Rightarrow> (Reply 404 (Message ''Tweet not found.''), s)
         | Some tweet \<Rightarrow>
             (case userRepo_findOneBy_id s (userId currentUser) of
                None \<Rightarrow> (Thrown ''User not found'', s)
              | Some user \<Rightarrow>
                  (case Like_save g s (user_id user) tweetId of
                     Inl message \<Rightarrow> (Thrown message, s)
                   | Inr (like, s') \<Rightarrow> (Reply 201 (Message ''Tweet liked successfully''), s'))))"

definition unlikeTweet :: "Collaborators \<Rightarrow> Store \<Rightarrow> int \<Rightarrow> Outcome \<times> Store" where
  "unlikeTweet env s tweetId =
     (let currentUser = getCurrentUser env
      in (Reply 200 (Message ''Tweet unliked successfully''),
          likeRepo_delete s tweetId (userId currentUser)))"

definition createComment ::
  "Collaborators \<Rightarrow> Generated \<Rightarrow> Store \<Rightarrow> int \<Rightarrow> string \<Rightarrow> Outcome \<times> Store" where
  "createComment env g s tweetId body_text =
     (let currentUser = getCurrentUser env
      in case tweetRepo_findOneBy_id s tweetId of
           None \<Rightarrow> (Reply 404 (Message ''Tweet not found.''), s)
         | Some tweet \<Rightarrow>
             (case userRepo_findOneBy_id s (userId currentUser) of
                None \<Rightarrow> (Thrown ''User not found'', s)
              | Some user \<Rightarrow>
                  (case Comment_save g s (user_id user) tweetId body_text of
                     Inl message \<Rightarrow> (Thrown message, s)
                   | Inr (saved, s') \<Rightarrow>
                       (Reply 201
                          (CommentOut
                             \<lparr>c_id = comment_id saved, c_text = content saved,
                              c_userId = comment_userId saved, c_tweetId = comment_tweetId saved,
                              c_username = username user, c_avatarUrl = avatarUrl user,
                              c_createdAt = comment_createdAt saved\<rparr>),
                        s'))))"

definition getComments ::
  "Store \<Rightarrow> int \<Rightarrow> Number option \<Rightarrow> Number option \<Rightarrow> Outcome \<times> Store" where
  "getComments s tweetId limit offset =
     (case tweetRepo_findOneBy_id s tweetId of
        None \<Rightarrow> (Reply 404 (Message ''Tweet not found.''), s)
      | Some tweet \<Rightarrow>
          (case take_skip (limit_default limit) (offset_default offset)
                  (order_createdAt_DESC comment_createdAt comment_id
                     (filter (\<lambda>c. comment_tweetId c = tweetId) (comments s))) of
             Inl message \<Rightarrow> (Thrown message, s)
           | Inr page \<Rightarrow>
               (Reply 200
                  (CommentsOut
                     (map (\<lambda>c.
                             \<lparr>c_id = comment_id c, c_text = content c,
                              c_userId = comment_userId c, c_tweetId = comment_tweetId c,
                              c_username =
                                or_unknown (map_option username (relation_user s (comment_userId c))),
                              c_avatarUrl =
                                or_null (Option.bind (relation_user s (comment_userId c)) avatarUrl),
                              c_createdAt = comment_createdAt c\<rparr>)
                        page)),
                s)))"

section \<open>Routes (routes.ts)\<close>

text \<open>
  \<^verbatim>\<open>RegisterRoutes\<close>: one request per registered route, carrying the arguments
  the route hands to its controller method. The routes of \<^verbatim>\<open>getUserFollowers\<close>
  and \<^verbatim>\<open>getUserFollowing\<close> list the user id as their only argument, so the
  two methods run with \<^verbatim>\<open>notFound\<close> undefined.
\<close>

datatype Request =
    POST_tweets JwtPayload CreateTweetBase64Input
  | GET_tweets "JwtPayload option" "Number option" "Number option"
  | GET_tweets_search "JwtPayload option" code_units "Number option" "Number option"
  | GET_tweets_tweetId "JwtPayload option" int
  | POST_users_follow JwtPayload int
  | DELETE_users_unfollow JwtPayload int
  | GET_users_profile int
  | GET_users_followers int
  | GET_users_following int
  | GET_users_likes "JwtPayload option" int
  | POST_tweets_like int
  | DELETE_tweets_unlike int
  | POST_tweets_comments int string
  | GET_tweets_comments int "Number option" "Number option"

fun handle :: "Collaborators \<Rightarrow> Generated \<Rightarrow> Store \<Rightarrow> Request \<Rightarrow> Outcome \<times> Store" where
  "handle env g s (POST_tweets cu body) = createTweet env g cu s body"
| "handle env g s (GET_tweets cu limit offset) = getFeedTweets s cu limit offset"
| "handle env g s (GET_tweets_search cu query limit offset) = searchTweets env s cu query limit offset"
| "handle env g s (GET_tweets_tweetId cu tweetId) = getTweetById s cu tweetId"
| "handle env g s (POST_users_follow cu uid) = followUser g cu s uid"
| "handle env g s (DELETE_users_unfollow cu uid) = unfollowUser cu s uid"
| "handle env g s (GET_users_profile uid) = getUserProfile s uid"
| "handle env g s (GET_users_followers uid) = getUserFollowers Undefined s uid"
| "handle env g s (GET_users_following uid) = getUserFollowing Undefined s uid"
| "handle env g s (GET_users_likes cu uid) = getUserLikes s cu uid"
| "handle env g s (POST_tweets_like tweetId) = likeTweet env g s tweetId"
| "handle env g s (DELETE_tweets_unlike tweetId) = unlikeTweet env s tweetId"
| "handle env g s (POST_tweets_comments tweetId body_text) = createComment env g s tweetId body_text"
| "handle env g s (GET_tweets_comments tweetId limit offset) = getComments s tweetId limit offset"

section \<open>A spec-level reading of the search term\<close>



section \<open>Classification of requests\<close>

text \<open>The two routes whose handlers call a repository's \<^verbatim>\<open>delete\<close>.\<close>

fun is_delete :: "Request \<Rightarrow> bool" where
  "is_delete (DELETE_users_unfollow cu uid) = True"
| "is_delete (DELETE_tweets_unlike tweetId) = True"
| "is_delete r = False"

text \<open>The (follower, followed) pair of a Follow row and the (user, tweet) pair of a Like row.\<close>

definition follow_pair :: "Follow \<Rightarrow> int \<times> int" where
  "follow_pair f = (followerId f, followedId f)"

definition like_pair :: "Like \<Rightarrow> int \<times> int" where
  "like_pair l = (like_userId l, like_tweetId l)"

text \<open>
  Every row of the first database is a row of the second, at its place: each
  table of the second starts with the table of the first.
\<close>

definition persists :: "Store \<Rightarrow> Store \<Rightarrow> bool" where
  "persists s s' =
     (prefix (users s) (users s') \<and> prefix (tweets s) (tweets s')
      \<and> prefix (comments s) (comments s') \<and> prefix (likes s) (likes s')
      \<and> prefix (follows s) (follows s'))"

text \<open>
  The server over time: the requests of a list handled one after the other, each
  with what the database generates for it.
\<close>

fun run :: "Collaborators \<Rightarrow> Store \<Rightarrow> (Generated \<times> Request) list \<Rightarrow> Store" where
  "run env s [] = s"
| "run env s ((g, r) # rs) = run env (snd (handle env g s r)) rs"

text \<open>
  What holds of the Follow rows \<open>followUser\<close> has inserted: the two ids of a row
  differ, both fit the 32-bit column, the followed user has a row in
  \<^verbatim>\<open>users\<close>, and no two rows have the same (follower, followed) pair.
\<close>

definition follows_wf :: "Store \<Rightarrow> bool" where
  "follows_wf s =
     (list_all (\<lambda>f. followerId f \<noteq> followedId f \<and> int4 (followerId f) \<and> int4 (followedId f)
                     \<and> userRepo_findOneBy_id s (followedId f) \<noteq> None) (follows s)
      \<and> distinct (map follow_pair (follows s)))"

section \<open>Sample data\<close>

text \<open>A small database and collaborators on which the theorems below are exercised.\<close>

definition alice :: User where
  "alice = \<lparr>user_id = 1, username = ''alice'', email = ''alice@example.org'',
            passwordHash = ''h1'', bio = None, avatarUrl = None, user_createdAt = 10\<rparr>"

definition bob :: User where
  "bob = \<lparr>user_id = 2, username = ''bob'', email = ''bob@example.org'',
          passwordHash = ''h2'', bio = Some ''hi'', avatarUrl = Some ''https://cdn/bob.png'',
          user_createdAt = 20\<rparr>"

definition tweet1 :: Tweet where
  "tweet1 = \<lparr>tweet_id = 1, imageUrl = Some ''https://cdn/1.jpg'', tweetText = Some ''red fox'',
             tweet_createdAt = 100, tweet_userId = 1\<rparr>"

definition tweet2 :: Tweet where
  "tweet2 = \<lparr>tweet_id = 2, imageUrl = Some ''https://cdn/2.jpg'', tweetText = None,
             tweet_createdAt = 300, tweet_userId = 2\<rparr>"

definition tweet3 :: Tweet where
  "tweet3 = \<lparr>tweet_id = 3, imageUrl = Some ''https://cdn/3.jpg'', tweetText = Some ''red fox'',
             tweet_createdAt = 200, tweet_userId = 2\<rparr>"

definition sample_store :: Store where
  "sample_store = \<lparr>users = [alice, bob], tweets = [tweet1, tweet2, tweet3],
                   comments = [], likes = [], follows = []\<rparr>"

definition sample_env :: Collaborators where
  "sample_env =
     \<lparr>uploadBase64ToObjectStorage =
        (\<lambda>d ty. if d = ''fail'' then Inl ''upload failed''
                 else Inr \<lparr>objectUrl = ''https://cdn/'' @ d\<rparr>),
      fts_match =
        (\<lambda>q txt. case txt of
                   None \<Rightarrow> False
                 | Some x \<Rightarrow> filter (\<lambda>n. n \<noteq> 32 \<and> n \<noteq> 38) q = filter (\<lambda>n. n \<noteq> 32) (utf16 x)),
      getCurrentUser = \<lparr>userId = 1\<rparr>\<rparr>"

text \<open>
  The sample database with one Follow row from alice to bob whose two relation
  columns are set. No handler writes these columns; the row shows what the
  follower and following lists hold when the join finds a user.
\<close>

definition joined_follow_store :: Store where
  "joined_follow_store =
     sample_store\<lparr>follows := [\<lparr>follow_id = 1, followerId = 1, followedId = 2,
                                 follow_createdAt = 50, follower = Some 1, followed = Some 2\<rparr>]\<rparr>"

definition gen1 :: Generated where
  "gen1 = \<lparr>gen_id = 7, gen_createdAt = 400\<rparr>"

definition gen2 :: Generated where
  "gen2 = \<lparr>gen_id = 8, gen_createdAt = 500\<rparr>"


section \<open>Following a user\<close>

lemma find_None_list_ex: "(find P xs = None) = (\<not> list_ex P xs)"
  by (induction xs) auto

lemma followRepo_findOneBy_None_iff:
  "(followRepo_findOneBy s a b = None)
     = (\<not> list_ex (\<lambda>f. followerId f = a \<and> followedId f = b) (follows s))"
  by (simp add: followRepo_findOneBy_def find_None_list_ex)

lemma followRepo_findOneBy_None_pair:
  "(followRepo_findOneBy s a b = None) = ((a, b) \<notin> set (map follow_pair (follows s)))"
  by (auto simp: followRepo_findOneBy_def find_None_iff follow_pair_def)

lemma followUser_success_store:
  assumes "fst (followUser g currentUser s uid) = Reply 200 m"
  shows "userId currentUser \<noteq> uid
       \<and> snd (followUser g currentUser s uid) = followRepo_save g s (userId currentUser) uid"
  using assms by (auto simp: followUser_def split: if_splits option.splits)

lemma users_followRepo_save: "users (followRepo_save g s a b) = users s"
  by (simp add: followRepo_save_def)

lemma count_followedId_save:
  "followRepo_count_followedId (followRepo_save g s a b) i
     = followRepo_count_followedId s i + (if b = i then 1 else 0)"
  by (simp add: followRepo_count_followedId_def followRepo_save_def)

lemma count_followerId_save:
  "followRepo_count_followerId (followRepo_save g s a b) i
     = followRepo_count_followerId s i + (if a = i then 1 else 0)"
  by (simp add: followRepo_count_followerId_def followRepo_save_def)

lemma userRepo_findOneBy_id_save:
  "userRepo_findOneBy_id (followRepo_save g s a b) i = userRepo_findOneBy_id s i"
  by (simp add: userRepo_findOneBy_id_def users_followRepo_save)

text \<open>
  Claim C3. A \<open>followUser\<close> request whose target is the caller's own user id is
  answered with status 400 and leaves the database as it was, whatever the
  database holds; the insert of the data layer accepts a Follow row whose
  follower and followed ids are the same.
\<close>

theorem followUser_self_rejected:
  "followUser g currentUser s (userId currentUser)
     = (Reply 400 (Message ''You cannot follow yourself.''), s)
   \<and> follows (followRepo_save g s (userId currentUser) (userId currentUser))
     = follows s @ [\<lparr>follow_id = gen_id g, followerId = userId currentUser,
                     followedId = userId currentUser, follow_createdAt = gen_createdAt g,
                     follower = None, followed = None\<rparr>]"
  by (simp add: followUser_def followRepo_save_def)

theorem followUser_self_rejected_witness:
  "followUser gen1 \<lparr>userId = 1\<rparr> sample_store 1
     = (Reply 400 (Message ''You cannot follow yourself.''), sample_store)
   \<and> follows (followRepo_save gen1 sample_store 1 1)
     = [\<lparr>follow_id = 7, followerId = 1, followedId = 1, follow_createdAt = 400,
         follower = None, followed = None\<rparr>]"
  using followUser_self_rejected [of gen1 "\<lparr>userId = 1\<rparr>" sample_store]
  by (simp add: sample_store_def gen1_def)

lemma getUserProfile_counts:
  assumes "getUserProfile s uid = (Reply 200 (ProfileOut p), s')"
  shows "followers p = length (filter (\<lambda>f. followedId f = uid) (follows s))
        \<and> following p = length (filter (\<lambda>f. followerId f = uid) (follows s))
        \<and> p_id p = uid"
proof -
  from assms obtain u where u: "userRepo_findOneBy_id s uid = Some u"
    and p: "followers p = followRepo_count_followedId s uid"
      "following p = followRepo_count_followerId s uid" "p_id p = user_id u"
    by (auto simp: getUserProfile_def split: option.splits)
  from u have "user_id u = uid"
    by (auto simp: userRepo_findOneBy_id_def find_Some_iff)
  with p show ?thesis
    by (simp add: followRepo_count_followedId_def followRepo_count_followerId_def)
qed

lemma followUser_profile_counts:
  assumes f: "fst (followUser g \<lparr>userId = a\<rparr> s b) = Reply 200 m"
    and pa: "fst (getUserProfile s a) = Reply 200 (ProfileOut pa)"
    and pb: "fst (getUserProfile s b) = Reply 200 (ProfileOut pb)"
  shows "fst (getUserProfile (snd (followUser g \<lparr>userId = a\<rparr> s b)) b)
            = Reply 200 (ProfileOut (pb\<lparr>followers := followers pb + 1\<rparr>))
        \<and> fst (getUserProfile (snd (followUser g \<lparr>userId = a\<rparr> s b)) a)
            = Reply 200 (ProfileOut (pa\<lparr>following := following pa + 1\<rparr>))"
proof -
  from f have ne: "a \<noteq> b"
    and s': "snd (followUser g \<lparr>userId = a\<rparr> s b) = followRepo_save g s a b"
    using followUser_success_store [of g "\<lparr>userId = a\<rparr>" s b m] by simp_all
  from pa pb ne show ?thesis
    unfolding s'
    by (auto simp: getUserProfile_def userRepo_findOneBy_id_save count_followedId_save
        count_followerId_save split: option.splits)
qed

text \<open>
  Claim C5. \<open>getUserProfile\<close> reports as \<open>followers\<close> the number of Follow rows
  whose \<open>followedId\<close> is the profile's user id and as \<open>following\<close> the number of
  rows whose \<open>followerId\<close> is it. When user \<open>a\<close> follows user \<open>b\<close> through
  \<open>followUser\<close>, the profile of \<open>b\<close> afterwards is the one before with \<open>followers\<close>
  one larger, and the profile of \<open>a\<close> the one before with \<open>following\<close> one larger:
  \<open>b\<close>'s \<open>following\<close> and \<open>a\<close>'s \<open>followers\<close> are what they were.
\<close>

theorem follow_is_directed:
  "(getUserProfile s uid = (Reply 200 (ProfileOut p), s')
      \<longrightarrow> followers p = length (filter (\<lambda>f. followedId f = uid) (follows s))
        \<and> following p = length (filter (\<lambda>f. followerId f = uid) (follows s))
        \<and> p_id p = uid)
   \<and> (fst (followUser g \<lparr>userId = a\<rparr> s b) = Reply 200 m
        \<and> fst (getUserProfile s a) = Reply 200 (ProfileOut pa)
        \<and> fst (getUserProfile s b) = Reply 200 (ProfileOut pb)
      \<longrightarrow> fst (getUserProfile (snd (followUser g \<lparr>userId = a\<rparr> s b)) b)
            = Reply 200 (ProfileOut (pb\<lparr>followers := followers pb + 1\<rparr>))
        \<and> fst (getUserProfile (snd (followUser g \<lparr>userId = a\<rparr> s b)) a)
            = Reply 200 (ProfileOut (pa\<lparr>following := following pa + 1\<rparr>)))"
proof (rule conjI)
  show "getUserProfile s uid = (Reply 200 (ProfileOut p), s')
      \<longrightarrow> followers p = length (filter (\<lambda>f. followedId f = uid) (follows s))
        \<and> following p = length (filter (\<lambda>f. followerId f = uid) (follows s))
        \<and> p_id p = uid"
    using getUserProfile_counts by blast
  show "fst (followUser g \<lparr>userId = a\<rparr> s b) = Reply 200 m
        \<and> fst (getUserProfile s a) = Reply 200 (ProfileOut pa)
        \<and> fst (getUserProfile s b) = Reply 200 (ProfileOut pb)
      \<longrightarrow> fst (getUserProfile (snd (followUser g \<lparr>userId = a\<rparr> s b)) b)
            = Reply 200 (ProfileOut (pb\<lparr>followers := followers pb + 1\<rparr>))
        \<and> fst (getUserProfile (snd (followUser g \<lparr>userId = a\<rparr> s b)) a)
            = Reply 200 (ProfileOut (pa\<lparr>following := following pa + 1\<rparr>))"
    using followUser_profile_counts by blast
qed

theorem follow_is_directed_witness:
  "fst (followUser gen1 \<lparr>userId = 1\<rparr> sample_store 2)
     = Reply 200 (Message ''Successfully followed user 2'')
   \<and> getUserProfile sample_store 1 = (Reply 200 (ProfileOut
        \<lparr>p_id = 1, p_username = ''alice'', p_bio = None, p_avatarUrl = None, p_createdAt = 10,
         followers = 0, following = 0\<rparr>), sample_store)
   \<and> length (filter (\<lambda>f. followedId f = 1) (follows sample_store)) = 0
   \<and> fst (getUserProfile (snd (followUser gen1 \<lparr>userId = 1\<rparr> sample_store 2)) 2)
       = Reply 200 (ProfileOut
        \<lparr>p_id = 2, p_username = ''bob'', p_bio = Some ''hi'', p_avatarUrl = Some ''https://cdn/bob.png'',
         p_createdAt = 20, followers = 1, following = 0\<rparr>)
   \<and> fst (getUserProfile (snd (followUser gen1 \<lparr>userId = 1\<rparr> sample_store 2)) 1)
       = Reply 200 (ProfileOut
        \<lparr>p_id = 1, p_username = ''alice'', p_bio = None, p_avatarUrl = None, p_createdAt = 10,
         followers = 0, following = 1\<rparr>)"
proof -
  have f: "fst (followUser gen1 \<lparr>userId = 1\<rparr> sample_store 2)
             = Reply 200 (Message ''Successfully followed user 2'')"
    by code_simp
  have pa: "getUserProfile sample_store 1 = (Reply 200 (ProfileOut
        \<lparr>p_id = 1, p_username = ''alice'', p_bio = None, p_avatarUrl = None, p_createdAt = 10,
         followers = 0, following = 0\<rparr>), sample_store)"
    by (simp add: getUserProfile_def sample_store_def userRepo_findOneBy_id_def alice_def
        followRepo_count_followedId_def followRepo_count_followerId_def)
  have pb: "fst (getUserProfile sample_store 2) = Reply 200 (ProfileOut
        \<lparr>p_id = 2, p_username = ''bob'', p_bio = Some ''hi'', p_avatarUrl = Some ''https://cdn/bob.png'',
         p_createdAt = 20, followers = 0, following = 0\<rparr>)"
    by (simp add: getUserProfile_def sample_store_def userRepo_findOneBy_id_def alice_def bob_def
        followRepo_count_followedId_def followRepo_count_followerId_def)
  note inst = follow_is_directed [where s = sample_store and g = gen1 and a = 1 and b = 2
      and m = "Message ''Successfully followed user 2''" and uid = 1 and s' = sample_store
      and p = "\<lparr>p_id = 1, p_username = ''alice'', p_bio = None, p_avatarUrl = None,
                p_createdAt = 10, followers = 0, following = 0\<rparr>"]
  from inst pa have n: "length (filter (\<lambda>f. followedId f = 1) (follows sample_store)) = 0"
    by simp
  from inst f pa pb n show ?thesis by simp
qed


section \<open>Likes\<close>

lemma likeTweet_success:
  assumes t: "tweetRepo_findOneBy_id s tid \<noteq> None"
    and u: "userRepo_findOneBy_id s (userId (getCurrentUser env)) \<noteq> None"
  shows "likeTweet env g s tid
     = (Reply 201 (Message ''Tweet liked successfully''),
        s\<lparr>likes := likes s @ [\<lparr>like_id = gen_id g, like_createdAt = gen_createdAt g,
              like_userId = userId (getCurrentUser env), like_tweetId = tid\<rparr>]\<rparr>)"
proof -
  from u obtain usr where usr: "userRepo_findOneBy_id s (userId (getCurrentUser env)) = Some usr"
    by auto
  then have id: "user_id usr = userId (getCurrentUser env)"
    by (auto simp: userRepo_findOneBy_id_def find_Some_iff)
  from t obtain tw where tw: "tweetRepo_findOneBy_id s tid = Some tw" by auto
  show ?thesis
    by (simp add: likeTweet_def Like_save_def usr tw id Let_def)
qed

text \<open>
  Claim C2. Nothing keeps the Like rows of a (user, tweet) pair unique: in every
  database in which the tweet and the current user exist and the user has one
  Like row for the tweet, \<open>likeTweet\<close> for that tweet succeeds with status 201
  and leaves two Like rows for the pair. The witness reaches such a database by
  a first \<open>likeTweet\<close> call and shows the two rows after the second.
\<close>

theorem likes_not_unique:
  "tweetRepo_findOneBy_id s tid \<noteq> None
   \<and> userRepo_findOneBy_id s (userId (getCurrentUser env)) \<noteq> None
   \<and> length (filter (\<lambda>l. like_pair l = (userId (getCurrentUser env), tid)) (likes s)) = 1
   \<longrightarrow> fst (likeTweet env g s tid) = Reply 201 (Message ''Tweet liked successfully'')
     \<and> length (filter (\<lambda>l. like_pair l = (userId (getCurrentUser env), tid))
                 (likes (snd (likeTweet env g s tid)))) = 2"
  by (auto simp: likeTweet_success like_pair_def)

theorem likes_not_unique_witness:
  "length (filter (\<lambda>l. like_pair l = (1, 1)) (likes (snd (likeTweet sample_env gen1 sample_store 1)))) = 1
   \<and> fst (likeTweet sample_env gen2 (snd (likeTweet sample_env gen1 sample_store 1)) 1)
       = Reply 201 (Message ''Tweet liked successfully'')
   \<and> likes (snd (likeTweet sample_env gen2 (snd (likeTweet sample_env gen1 sample_store 1)) 1))
       = [\<lparr>like_id = 7, like_createdAt = 400, like_userId = 1, like_tweetId = 1\<rparr>,
          \<lparr>like_id = 8, like_createdAt = 500, like_userId = 1, like_tweetId = 1\<rparr>]"
proof -
  have cu: "userId (getCurrentUser sample_env) = 1"
    by (simp add: sample_env_def)
  have s1: "snd (likeTweet sample_env gen1 sample_store 1)
      = sample_store\<lparr>likes := [\<lparr>like_id = 7, like_createdAt = 400, like_userId = 1, like_tweetId = 1\<rparr>]\<rparr>"
    by (simp add: likeTweet_def Like_save_def Let_def sample_env_def sample_store_def gen1_def
        tweetRepo_findOneBy_id_def userRepo_findOneBy_id_def alice_def tweet1_def)
  have t: "tweetRepo_findOneBy_id (snd (likeTweet sample_env gen1 sample_store 1)) 1 \<noteq> None"
    unfolding s1 by (simp add: tweetRepo_findOneBy_id_def sample_store_def tweet1_def)
  have u: "userRepo_findOneBy_id (snd (likeTweet sample_env gen1 sample_store 1))
             (userId (getCurrentUser sample_env)) \<noteq> None"
    unfolding s1 cu by (simp add: userRepo_findOneBy_id_def sample_store_def alice_def)
  have one: "length (filter (\<lambda>l. like_pair l = (userId (getCurrentUser sample_env), 1))
                 (likes (snd (likeTweet sample_env gen1 sample_store 1)))) = 1"
    unfolding s1 cu by (simp add: like_pair_def)
  have two: "likes (snd (likeTweet sample_env gen2 (snd (likeTweet sample_env gen1 sample_store 1)) 1))
       = [\<lparr>like_id = 7, like_createdAt = 400, like_userId = 1, like_tweetId = 1\<rparr>,
          \<lparr>like_id = 8, like_createdAt = 500, like_userId = 1, like_tweetId = 1\<rparr>]"
    unfolding likeTweet_success [OF t u] unfolding s1 cu by (simp add: gen2_def)
  from likes_not_unique [of "snd (likeTweet sample_env gen1 sample_store 1)" 1 sample_env gen2]
    t u one two
  show ?thesis by (simp add: cu)
qed

section \<open>Creating tweets\<close>

lemma createTweet_400_iff:
  "(status (fst (createTweet env g cu s body)) = Some 400)
     = (imageBase64 body = [] \<or> \<not> startsWith (imageFileType body) ''image/'')"
  by (auto simp: createTweet_def Let_def split: sum.splits prod.splits)

lemma createTweet_200:
  assumes "status (fst (createTweet env g cu s body)) = Some 200"
  shows "\<exists>up. uploadBase64ToObjectStorage env (strip_data_prefix (imageBase64 body))
                 (imageFileType body) = Inr up
          \<and> userRepo_findOneBy_id s (userId cu) \<noteq> None
          \<and> snd (createTweet env g cu s body)
             = s\<lparr>tweets := tweets s @
                 [\<lparr>tweet_id = gen_id g, imageUrl = Some (objectUrl up),
                   tweetText = or_null (body_tweetText body),
                   tweet_createdAt = gen_createdAt g, tweet_userId = userId cu\<rparr>]\<rparr>"
  using assms
  by (auto simp: createTweet_def tweetRepo_save_def Let_def split: sum.splits prod.splits if_splits)

lemma createTweet_not_200:
  assumes "status (fst (createTweet env g cu s body)) \<noteq> Some 200"
  shows "snd (createTweet env g cu s body) = s"
  using assms
  by (auto simp: createTweet_def tweetRepo_save_def Let_def split: sum.splits prod.splits if_splits)

lemma createTweet_succeeds:
  assumes "imageBase64 body \<noteq> []" "startsWith (imageFileType body) ''image/''"
    "uploadBase64ToObjectStorage env (strip_data_prefix (imageBase64 body)) (imageFileType body) = Inr up"
    "userRepo_findOneBy_id s (userId cu) \<noteq> None"
  shows "status (fst (createTweet env g cu s body)) = Some 200"
  using assms
  by (auto simp: createTweet_def tweetRepo_save_def Let_def split: sum.splits prod.splits if_splits)

section \<open>What the handlers do to the database\<close>

lemma persists_refl: "persists s s"
  by (simp add: persists_def)

lemma read_only_handlers:
  "snd (getFeedTweets s cu limit offset) = s"
  "snd (searchTweets env s cu query limit offset) = s"
  "snd (getTweetById s cu tweetId) = s"
  "snd (getUserProfile s uid) = s"
  "snd (getUserFollowers notFound s uid) = s"
  "snd (getUserFollowing notFound s uid) = s"
  "snd (getUserLikes s cu uid) = s"
  "snd (getComments s tweetId limit offset) = s"
  by (simp_all add: getFeedTweets_def searchTweets_def getTweetById_def getUserProfile_def
      getUserFollowers_def getUserFollowing_def getUserLikes_def getComments_def Let_def
      split: option.splits sum.splits)

lemma createTweet_persists: "persists s (snd (createTweet env g cu s body))"
proof (cases "status (fst (createTweet env g cu s body)) = Some 200")
  case True
  from createTweet_200 [OF True] show ?thesis
    by (auto simp: persists_def)
next
  case False
  then show ?thesis
    by (simp add: createTweet_not_200 persists_refl)
qed

lemma followUser_persists: "persists s (snd (followUser g cu s uid))"
  by (auto simp: followUser_def followRepo_save_def persists_def split: option.splits)

lemma likeTweet_persists: "persists s (snd (likeTweet env g s tweetId))"
  by (auto simp: likeTweet_def Like_save_def persists_def Let_def split: option.splits)

lemma createComment_persists: "persists s (snd (createComment env g s tweetId txt))"
  by (auto simp: createComment_def Comment_save_def persists_def Let_def split: option.splits)

lemma handle_persists:
  assumes "\<not> is_delete r"
  shows "persists s (snd (handle env g s r))"
  using assms
  by (cases r)
     (simp_all add: read_only_handlers persists_refl createTweet_persists followUser_persists
        likeTweet_persists createComment_persists)

lemma unfollowUser_store:
  "snd (unfollowUser cu s uid)
     = s\<lparr>follows := filter (\<lambda>f. \<not> (followerId f = userId cu \<and> followedId f = uid)) (follows s)\<rparr>"
  by (simp add: unfollowUser_def followRepo_delete_def)

lemma unlikeTweet_store:
  "snd (unlikeTweet env s tweetId)
     = s\<lparr>likes := filter (\<lambda>l. \<not> (like_tweetId l = tweetId
                                   \<and> like_userId l = userId (getCurrentUser env))) (likes s)\<rparr>"
  by (simp add: unlikeTweet_def likeRepo_delete_def Let_def)

lemma persists_trans: "persists a b \<Longrightarrow> persists b c \<Longrightarrow> persists a c"
  by (auto simp: persists_def)

lemma run_persists:
  "list_all (\<lambda>(g, r). \<not> is_delete r) rs \<Longrightarrow> persists s (run env s rs)"
proof (induction rs arbitrary: s)
  case Nil
  show ?case by (simp add: persists_refl)
next
  case (Cons x rs)
  obtain g r where x: "x = (g, r)" by (cases x)
  from Cons.prems x have nd: "\<not> is_delete r" and rest: "list_all (\<lambda>(g, r). \<not> is_delete r) rs"
    by simp_all
  have "persists s (snd (handle env g s r))"
    by (rule handle_persists [OF nd])
  moreover have "persists (snd (handle env g s r)) (run env (snd (handle env g s r)) rs)"
    by (rule Cons.IH [OF rest])
  ultimately show ?case
    unfolding x by (simp add: persists_trans)
qed

text \<open>
  Claim C6. The read-only handlers \<open>getFeedTweets\<close>, \<open>getTweetById\<close>,
  \<open>getUserProfile\<close> and \<open>getComments\<close> return the database they were given.
  Every request that is not one of the two deletes leaves every row of every
  table in place (the tables only grow at the end), and so does every sequence
  of such requests. \<open>unfollowUser\<close> removes exactly the Follow rows from the
  caller to the named user and \<open>unlikeTweet\<close> exactly the current user's Like
  rows of the named tweet; both leave every other row and table as it was.
\<close>

theorem entities_persist:
  "snd (getFeedTweets s cu limit offset) = s
   \<and> snd (getTweetById s cu tweetId) = s
   \<and> snd (getUserProfile s uid) = s
   \<and> snd (getComments s tweetId limit offset) = s
   \<and> (\<not> is_delete r \<longrightarrow> persists s (snd (handle env g s r)))
   \<and> (list_all (\<lambda>(g, r). \<not> is_delete r) rs \<longrightarrow> persists s (run env s rs))
   \<and> snd (handle env g s (DELETE_users_unfollow me uid))
       = s\<lparr>follows := filter (\<lambda>f. \<not> (followerId f = userId me \<and> followedId f = uid)) (follows s)\<rparr>
   \<and> snd (handle env g s (DELETE_tweets_unlike tweetId))
       = s\<lparr>likes := filter (\<lambda>l. \<not> (like_tweetId l = tweetId
                                     \<and> like_userId l = userId (getCurrentUser env))) (likes s)\<rparr>"
  by (simp add: read_only_handlers handle_persists run_persists unfollowUser_store
      unlikeTweet_store)

theorem entities_persist_witness:
  "\<not> is_delete (POST_tweets_like 1)
   \<and> persists sample_store (snd (handle sample_env gen1 sample_store (POST_tweets_like 1)))
   \<and> likes (snd (handle sample_env gen1 sample_store (POST_tweets_like 1)))
       = [\<lparr>like_id = 7, like_createdAt = 400, like_userId = 1, like_tweetId = 1\<rparr>]
   \<and> list_all (\<lambda>(g, r). \<not> is_delete r)
        [(gen1, POST_tweets_like 1), (gen2, GET_tweets None None None)]
   \<and> persists sample_store (run sample_env sample_store
        [(gen1, POST_tweets_like 1), (gen2, GET_tweets None None None)])
   \<and> likes (run sample_env sample_store
        [(gen1, POST_tweets_like 1), (gen2, GET_tweets None None None)])
       = [\<lparr>like_id = 7, like_createdAt = 400, like_userId = 1, like_tweetId = 1\<rparr>]
   \<and> likes (run sample_env sample_store
        [(gen1, POST_tweets_like 1), (gen2, DELETE_tweets_unlike 1)]) = []"
proof -
  have l: "snd (likeTweet sample_env gen1 sample_store 1)
      = sample_store\<lparr>likes := [\<lparr>like_id = 7, like_createdAt = 400, like_userId = 1, like_tweetId = 1\<rparr>]\<rparr>"
    by (simp add: likeTweet_def Like_save_def Let_def sample_env_def sample_store_def gen1_def
        tweetRepo_findOneBy_id_def userRepo_findOneBy_id_def alice_def tweet1_def)
  have nd: "list_all (\<lambda>(g, r). \<not> is_delete r)
        [(gen1, POST_tweets_like 1), (gen2, GET_tweets None None None)]"
    by simp
  have p: "persists sample_store (snd (handle sample_env gen1 sample_store (POST_tweets_like 1)))"
    using entities_persist [where r = "POST_tweets_like 1" and s = sample_store
        and env = sample_env and g = gen1]
    by simp
  have q: "persists sample_store (run sample_env sample_store
        [(gen1, POST_tweets_like 1), (gen2, GET_tweets None None None)])"
    using entities_persist [where s = sample_store and env = sample_env
        and rs = "[(gen1, POST_tweets_like 1), (gen2, GET_tweets None None None)]"] nd
    by blast
  have g: "snd (getFeedTweets
              (sample_store\<lparr>likes := [\<lparr>like_id = 7, like_createdAt = 400, like_userId = 1,
                                        like_tweetId = 1\<rparr>]\<rparr>) None None None)
      = sample_store\<lparr>likes := [\<lparr>like_id = 7, like_createdAt = 400, like_userId = 1,
                                 like_tweetId = 1\<rparr>]\<rparr>"
    using entities_persist [where s = "sample_store\<lparr>likes := [\<lparr>like_id = 7,
        like_createdAt = 400, like_userId = 1, like_tweetId = 1\<rparr>]\<rparr>"
        and cu = None and limit = None and offset = None]
    by blast
  have u: "snd (handle sample_env gen2
              (sample_store\<lparr>likes := [\<lparr>like_id = 7, like_createdAt = 400, like_userId = 1,
                                        like_tweetId = 1\<rparr>]\<rparr>) (DELETE_tweets_unlike 1))
      = sample_store\<lparr>likes := []\<rparr>"
    using entities_persist [where s = "sample_store\<lparr>likes := [\<lparr>like_id = 7,
        like_createdAt = 400, like_userId = 1, like_tweetId = 1\<rparr>]\<rparr>"
        and env = sample_env and g = gen2 and tweetId = 1]
    by (simp add: sample_env_def)
  from p q l u g nd show ?thesis
    by simp
qed

section \<open>The image and the text of a tweet\<close>

lemma createTweet_tweets:
  "tweets (snd (createTweet env g cu s body)) = tweets s
   \<or> (\<exists>t url. tweets (snd (createTweet env g cu s body)) = tweets s @ [t] \<and> imageUrl t = Some url)"
proof (cases "status (fst (createTweet env g cu s body)) = Some 200")
  case True
  from createTweet_200 [OF True] show ?thesis by auto
next
  case False
  then show ?thesis by (simp add: createTweet_not_200)
qed

lemma handle_tweets:
  "tweets (snd (handle env g s r)) = tweets s
   \<or> (\<exists>t url. tweets (snd (handle env g s r)) = tweets s @ [t] \<and> imageUrl t = Some url)"
proof (cases r)
  case (POST_tweets cu body)
  then show ?thesis using createTweet_tweets [of env g cu s body] by simp
next
  case (POST_users_follow cu uid)
  then show ?thesis
    by (auto simp: followUser_def followRepo_save_def split: option.splits)
next
  case (DELETE_users_unfollow cu uid)
  then show ?thesis by (simp add: unfollowUser_store)
next
  case (POST_tweets_like tweetId)
  then show ?thesis
    by (auto simp: likeTweet_def Like_save_def Let_def split: option.splits)
next
  case (DELETE_tweets_unlike tweetId)
  then show ?thesis by (simp add: unlikeTweet_store)
next
  case (POST_tweets_comments tweetId body_text)
  then show ?thesis
    by (auto simp: createComment_def Comment_save_def Let_def split: option.splits)
qed (simp_all add: read_only_handlers)

lemma handle_keeps_images:
  assumes "list_all (\<lambda>t. imageUrl t \<noteq> None) (tweets s)"
  shows "list_all (\<lambda>t. imageUrl t \<noteq> None) (tweets (snd (handle env g s r)))"
  using handle_tweets [of env g s r] assms by auto

text \<open>
  Claim C4. \<open>createTweet\<close> answers 400 and leaves the database as it was when
  \<open>imageBase64\<close> is empty or \<open>imageFileType\<close> does not start with \<^verbatim>\<open>image/\<close>.
  When it answers 200 it has appended one tweet, whose image URL is not null.
  The insert of the data layer rejects a tweet without an image URL, and no
  request takes a database whose tweets all have an image URL to one with a
  tweet that has none.
\<close>

theorem tweet_image_mandatory:
  "(imageBase64 body = [] \<or> \<not> startsWith (imageFileType body) ''image/''
      \<longrightarrow> createTweet env g cu s body
            = (Reply 400 (Message ''imageBase64 and a valid imageFileType are required.''), s))
   \<and> (status (fst (createTweet env g cu s body)) = Some 200
      \<longrightarrow> (\<exists>t url. tweets (snd (createTweet env g cu s body)) = tweets s @ [t]
                    \<and> imageUrl t = Some url))
   \<and> isl (tweetRepo_save g s uid None text)
   \<and> (list_all (\<lambda>t. imageUrl t \<noteq> None) (tweets s)
      \<longrightarrow> list_all (\<lambda>t. imageUrl t \<noteq> None) (tweets (snd (handle env g s r))))"
proof (intro conjI impI)
  assume "imageBase64 body = [] \<or> \<not> startsWith (imageFileType body) ''image/''"
  then show "createTweet env g cu s body
            = (Reply 400 (Message ''imageBase64 and a valid imageFileType are required.''), s)"
    by (auto simp: createTweet_def)
next
  assume ok: "status (fst (createTweet env g cu s body)) = Some 200"
  from createTweet_200 [OF ok]
  show "\<exists>t url. tweets (snd (createTweet env g cu s body)) = tweets s @ [t] \<and> imageUrl t = Some url"
    by auto
next
  show "isl (tweetRepo_save g s uid None text)"
    by (simp add: tweetRepo_save_def)
next
  assume "list_all (\<lambda>t. imageUrl t \<noteq> None) (tweets s)"
  then show "list_all (\<lambda>t. imageUrl t \<noteq> None) (tweets (snd (handle env g s r)))"
    by (rule handle_keeps_images)
qed

theorem tweet_image_mandatory_witness:
  "createTweet sample_env gen1 \<lparr>userId = 1\<rparr> sample_store
      \<lparr>imageBase64 = '''', imageFileType = ''image/png'', body_tweetText = Some ''x''\<rparr>
     = (Reply 400 (Message ''imageBase64 and a valid imageFileType are required.''), sample_store)
   \<and> createTweet sample_env gen1 \<lparr>userId = 1\<rparr> sample_store
      \<lparr>imageBase64 = ''AAAA'', imageFileType = ''text/plain'', body_tweetText = Some ''x''\<rparr>
     = (Reply 400 (Message ''imageBase64 and a valid imageFileType are required.''), sample_store)
   \<and> status (fst (createTweet sample_env gen1 \<lparr>userId = 1\<rparr> sample_store
      \<lparr>imageBase64 = ''data:image/png;base64,AAAA'', imageFileType = ''image/png'',
       body_tweetText = Some ''x''\<rparr>)) = Some 200
   \<and> map imageUrl (tweets (snd (createTweet sample_env gen1 \<lparr>userId = 1\<rparr> sample_store
      \<lparr>imageBase64 = ''data:image/png;base64,AAAA'', imageFileType = ''image/png'',
       body_tweetText = Some ''x''\<rparr>)))
     = [Some ''https://cdn/1.jpg'', Some ''https://cdn/2.jpg'', Some ''https://cdn/3.jpg'',
        Some ''https://cdn/AAAA'']
   \<and> list_all (\<lambda>t. imageUrl t \<noteq> None) (tweets sample_store)
   \<and> list_all (\<lambda>t. imageUrl t \<noteq> None)
        (tweets (snd (handle sample_env gen1 sample_store
           (POST_tweets \<lparr>userId = 1\<rparr>
              \<lparr>imageBase64 = ''data:image/png;base64,AAAA'', imageFileType = ''image/png'',
               body_tweetText = Some ''x''\<rparr>))))"
proof -
  let ?good = "\<lparr>imageBase64 = ''data:image/png;base64,AAAA'', imageFileType = ''image/png'',
       body_tweetText = Some ''x''\<rparr>"
  have a: "createTweet sample_env gen1 \<lparr>userId = 1\<rparr> sample_store
      \<lparr>imageBase64 = '''', imageFileType = ''image/png'', body_tweetText = Some ''x''\<rparr>
     = (Reply 400 (Message ''imageBase64 and a valid imageFileType are required.''), sample_store)"
    using tweet_image_mandatory [where body = "\<lparr>imageBase64 = '''', imageFileType = ''image/png'',
        body_tweetText = Some ''x''\<rparr>" and env = sample_env and g = gen1
        and cu = "\<lparr>userId = 1\<rparr>" and s = sample_store]
    by simp
  have b: "createTweet sample_env gen1 \<lparr>userId = 1\<rparr> sample_store
      \<lparr>imageBase64 = ''AAAA'', imageFileType = ''text/plain'', body_tweetText = Some ''x''\<rparr>
     = (Reply 400 (Message ''imageBase64 and a valid imageFileType are required.''), sample_store)"
    using tweet_image_mandatory [where body = "\<lparr>imageBase64 = ''AAAA'',
        imageFileType = ''text/plain'', body_tweetText = Some ''x''\<rparr>" and env = sample_env
        and g = gen1 and cu = "\<lparr>userId = 1\<rparr>" and s = sample_store]
    by simp
  have c: "status (fst (createTweet sample_env gen1 \<lparr>userId = 1\<rparr> sample_store ?good)) = Some 200"
    by code_simp
  have old: "map imageUrl (tweets sample_store)
      = [Some ''https://cdn/1.jpg'', Some ''https://cdn/2.jpg'', Some ''https://cdn/3.jpg'']"
    by (simp add: sample_store_def tweet1_def tweet2_def tweet3_def)
  have all: "list_all (\<lambda>t. imageUrl t \<noteq> None) (tweets sample_store)"
    by (simp add: sample_store_def tweet1_def tweet2_def tweet3_def)
  note inst = tweet_image_mandatory [where body = ?good and env = sample_env and g = gen1
        and cu = "\<lparr>userId = 1\<rparr>" and s = sample_store
        and r = "POST_tweets \<lparr>userId = 1\<rparr> ?good"]
  from inst c obtain t url where t:
    "tweets (snd (createTweet sample_env gen1 \<lparr>userId = 1\<rparr> sample_store ?good))
       = tweets sample_store @ [t]" "imageUrl t = Some url"
    by blast
  have last: "map imageUrl (tweets (snd (createTweet sample_env gen1 \<lparr>userId = 1\<rparr> sample_store ?good)))
      ! 3 = Some ''https://cdn/AAAA''"
    by code_simp
  from t last old have url: "url = ''https://cdn/AAAA''"
    by simp
  from t url old have d: "map imageUrl (tweets (snd (createTweet sample_env gen1 \<lparr>userId = 1\<rparr>
       sample_store ?good)))
     = [Some ''https://cdn/1.jpg'', Some ''https://cdn/2.jpg'', Some ''https://cdn/3.jpg'',
        Some ''https://cdn/AAAA'']"
    by simp
  from inst all have e: "list_all (\<lambda>t. imageUrl t \<noteq> None)
        (tweets (snd (handle sample_env gen1 sample_store (POST_tweets \<lparr>userId = 1\<rparr> ?good))))"
    by blast
  from a b c d all e show ?thesis by (intro conjI)
qed

lemma createTweet_200_text:
  assumes ok: "status (fst (createTweet env g cu s body)) = Some 200"
  shows "\<exists>t. tweets (snd (createTweet env g cu s body)) = tweets s @ [t]
           \<and> tweetText t = or_null (body_tweetText body)"
  using createTweet_200 [OF ok] by auto

lemma createTweet_200_reply:
  assumes ok: "status (fst (createTweet env g cu s body)) = Some 200"
  shows "\<exists>r. fst (createTweet env g cu s body) = Reply 200 (TweetOut r)
           \<and> r_tweetText r = or_null (body_tweetText body)"
  using ok
  by (auto simp: createTweet_def tweetRepo_save_def Let_def split: sum.splits prod.splits if_splits)

text \<open>
  Claim C7. When \<open>createTweet\<close> answers 200 it has appended one tweet; that
  tweet's text is null when the body's \<open>tweetText\<close> is absent or the empty
  string, and is exactly the body's text when that is not empty. The reply
  carries the stored text.
\<close>

theorem tweet_text_optional:
  "status (fst (createTweet env g cu s body)) = Some 200
   \<longrightarrow> (\<exists>t. tweets (snd (createTweet env g cu s body)) = tweets s @ [t]
           \<and> (body_tweetText body = None \<or> body_tweetText body = Some [] \<longrightarrow> tweetText t = None)
           \<and> (\<forall>x. body_tweetText body = Some x \<and> x \<noteq> [] \<longrightarrow> tweetText t = Some x)
           \<and> (\<exists>r. fst (createTweet env g cu s body) = Reply 200 (TweetOut r)
                    \<and> r_tweetText r = tweetText t))"
proof
  assume ok: "status (fst (createTweet env g cu s body)) = Some 200"
  from createTweet_200_text [OF ok] obtain t where
    t: "tweets (snd (createTweet env g cu s body)) = tweets s @ [t]"
      "tweetText t = or_null (body_tweetText body)"
    by blast
  from createTweet_200_reply [OF ok] obtain r where
    r: "fst (createTweet env g cu s body) = Reply 200 (TweetOut r)"
      "r_tweetText r = or_null (body_tweetText body)"
    by blast
  have none: "body_tweetText body = None \<or> body_tweetText body = Some [] \<longrightarrow> tweetText t = None"
    using t(2) by (auto simp: or_null_def)
  have some: "\<forall>x. body_tweetText body = Some x \<and> x \<noteq> [] \<longrightarrow> tweetText t = Some x"
    using t(2) by (auto simp: or_null_def)
  from t(1) none some r t(2)
  show "\<exists>t. tweets (snd (createTweet env g cu s body)) = tweets s @ [t]
           \<and> (body_tweetText body = None \<or> body_tweetText body = Some [] \<longrightarrow> tweetText t = None)
           \<and> (\<forall>x. body_tweetText body = Some x \<and> x \<noteq> [] \<longrightarrow> tweetText t = Some x)
           \<and> (\<exists>r. fst (createTweet env g cu s body) = Reply 200 (TweetOut r)
                    \<and> r_tweetText r = tweetText t)"
    by auto
qed

theorem tweet_text_optional_witness:
  "status (fst (createTweet sample_env gen1 \<lparr>userId = 1\<rparr> sample_store
      \<lparr>imageBase64 = ''AAAA'', imageFileType = ''image/png'', body_tweetText = Some ''''\<rparr>))
     = Some 200
   \<and> map tweetText (tweets (snd (createTweet sample_env gen1 \<lparr>userId = 1\<rparr> sample_store
      \<lparr>imageBase64 = ''AAAA'', imageFileType = ''image/png'', body_tweetText = Some ''''\<rparr>)))
     = [Some ''red fox'', None, Some ''red fox'', None]
   \<and> map tweetText (tweets (snd (createTweet sample_env gen1 \<lparr>userId = 1\<rparr> sample_store
      \<lparr>imageBase64 = ''AAAA'', imageFileType = ''image/png'', body_tweetText = None\<rparr>)))
     = [Some ''red fox'', None, Some ''red fox'', None]
   \<and> map tweetText (tweets (snd (createTweet sample_env gen1 \<lparr>userId = 1\<rparr> sample_store
      \<lparr>imageBase64 = ''AAAA'', imageFileType = ''image/png'', body_tweetText = Some ''owl''\<rparr>)))
     = [Some ''red fox'', None, Some ''red fox'', Some ''owl'']"
proof -
  let ?b = "\<lambda>x. \<lparr>imageBase64 = ''AAAA'', imageFileType = ''image/png'', body_tweetText = x\<rparr>"
  have ok: "status (fst (createTweet sample_env gen1 \<lparr>userId = 1\<rparr> sample_store (?b (Some ''''))))
     = Some 200"
    "status (fst (createTweet sample_env gen1 \<lparr>userId = 1\<rparr> sample_store (?b None))) = Some 200"
    "status (fst (createTweet sample_env gen1 \<lparr>userId = 1\<rparr> sample_store (?b (Some ''owl''))))
     = Some 200"
    by code_simp+
  have old: "map tweetText (tweets sample_store) = [Some ''red fox'', None, Some ''red fox'']"
    by (simp add: sample_store_def tweet1_def tweet2_def tweet3_def)
  from tweet_text_optional [where env = sample_env and g = gen1 and cu = "\<lparr>userId = 1\<rparr>"
      and s = sample_store and body = "?b (Some '''')"] ok(1)
  obtain t where t: "tweets (snd (createTweet sample_env gen1 \<lparr>userId = 1\<rparr> sample_store
      (?b (Some '''')))) = tweets sample_store @ [t]" "tweetText t = None"
    by auto
  from tweet_text_optional [where env = sample_env and g = gen1 and cu = "\<lparr>userId = 1\<rparr>"
      and s = sample_store and body = "?b None"] ok(2)
  obtain t' where t': "tweets (snd (createTweet sample_env gen1 \<lparr>userId = 1\<rparr> sample_store
      (?b None))) = tweets sample_store @ [t']" "tweetText t' = None"
    by auto
  from tweet_text_optional [where env = sample_env and g = gen1 and cu = "\<lparr>userId = 1\<rparr>"
      and s = sample_store and body = "?b (Some ''owl'')"] ok(3)
  obtain t'' where t'': "tweets (snd (createTweet sample_env gen1 \<lparr>userId = 1\<rparr> sample_store
      (?b (Some ''owl'')))) = tweets sample_store @ [t'']" "tweetText t'' = Some ''owl''"
    by auto
  from ok(1) t t' t'' old show ?thesis by simp
qed


section \<open>Follows in the databases the server reaches\<close>

lemma follows_wf_same:
  assumes "follows_wf s" "users s' = users s" "follows s' = follows s"
  shows "follows_wf s'"
  using assms by (simp add: follows_wf_def userRepo_findOneBy_id_def)

lemma createTweet_users_follows:
  "users (snd (createTweet env g cu s body)) = users s
   \<and> follows (snd (createTweet env g cu s body)) = follows s"
proof (cases "status (fst (createTweet env g cu s body)) = Some 200")
  case True
  from createTweet_200 [OF True] show ?thesis by auto
next
  case False
  then show ?thesis by (simp add: createTweet_not_200)
qed

lemma likeTweet_users_follows:
  "users (snd (likeTweet env g s tweetId)) = users s
   \<and> follows (snd (likeTweet env g s tweetId)) = follows s"
  by (auto simp: likeTweet_def Like_save_def Let_def split: option.splits)

lemma createComment_users_follows:
  "users (snd (createComment env g s tweetId body_text)) = users s
   \<and> follows (snd (createComment env g s tweetId body_text)) = follows s"
  by (auto simp: createComment_def Comment_save_def Let_def split: option.splits)

lemma followUser_follows_wf:
  assumes wf: "follows_wf s"
  shows "follows_wf (snd (followUser g cu s uid))"
proof (cases "\<exists>m. fst (followUser g cu s uid) = Reply 200 m")
  case True
  then obtain m where m: "fst (followUser g cu s uid) = Reply 200 m" ..
  from m have facts: "userId cu \<noteq> uid" "int4 uid" "int4 (userId cu)"
    "userRepo_findOneBy_id s uid \<noteq> None" "followRepo_findOneBy s (userId cu) uid = None"
    by (auto simp: followUser_def split: if_splits option.splits)
  from followUser_success_store [OF m]
  have s': "snd (followUser g cu s uid) = followRepo_save g s (userId cu) uid" by simp
  from facts(5) have fresh: "(userId cu, uid) \<notin> set (map follow_pair (follows s))"
    by (simp add: followRepo_findOneBy_None_pair)
  from wf facts fresh show ?thesis
    unfolding s'
    by (auto simp: follows_wf_def userRepo_findOneBy_id_def followRepo_save_def follow_pair_def)
next
  case False
  then have "snd (followUser g cu s uid) = s"
    by (auto simp: followUser_def split: if_splits option.splits)
  with wf show ?thesis by simp
qed

lemma unfollowUser_follows_wf:
  assumes wf: "follows_wf s"
  shows "follows_wf (snd (unfollowUser cu s uid))"
  using wf
  by (auto simp: unfollowUser_store follows_wf_def userRepo_findOneBy_id_def list_all_iff
      distinct_map_filter)

lemma handle_follows_wf:
  assumes wf: "follows_wf s"
  shows "follows_wf (snd (handle env g s r))"
proof (cases r)
  case (POST_tweets cu body)
  with wf createTweet_users_follows [of env g cu s body] show ?thesis
    by (simp add: follows_wf_same)
next
  case (POST_users_follow cu uid)
  with wf show ?thesis by (simp add: followUser_follows_wf)
next
  case (DELETE_users_unfollow cu uid)
  with wf show ?thesis by (simp add: unfollowUser_follows_wf)
next
  case (POST_tweets_like tweetId)
  with wf likeTweet_users_follows [of env g s tweetId] show ?thesis
    by (simp add: follows_wf_same)
next
  case (DELETE_tweets_unlike tweetId)
  with wf show ?thesis
    by (simp add: unlikeTweet_store follows_wf_def userRepo_findOneBy_id_def)
next
  case (POST_tweets_comments tweetId body_text)
  with wf createComment_users_follows [of env g s tweetId body_text] show ?thesis
    by (simp add: follows_wf_same)
qed (simp_all add: read_only_handlers wf)

lemma run_follows_wf: "follows_wf s \<Longrightarrow> follows_wf (run env s rs)"
proof (induction rs arbitrary: s)
  case Nil
  then show ?case by simp
next
  case (Cons x rs)
  obtain g r where x: "x = (g, r)" by (cases x)
  from Cons.prems have "follows_wf (snd (handle env g s r))" by (rule handle_follows_wf)
  then have "follows_wf (run env (snd (handle env g s r)) rs)" by (rule Cons.IH)
  then show ?case unfolding x by simp
qed

lemma empty_follows_wf: "follows s = [] \<Longrightarrow> follows_wf s"
  by (simp add: follows_wf_def)

lemma followUser_409:
  assumes wf: "follows_wf s"
    and row: "list_ex (\<lambda>f. followerId f = userId cu \<and> followedId f = uid) (follows s)"
  shows "followUser g cu s uid
           = (Reply 409 (Message ''You are already following this user.''), s)"
proof -
  from row obtain f where f: "f \<in> set (follows s)" "followerId f = userId cu" "followedId f = uid"
    by (auto simp: list_ex_iff)
  with wf have ne: "userId cu \<noteq> uid" and r: "int4 (userId cu)" "int4 uid"
    and u: "userRepo_findOneBy_id s uid \<noteq> None"
    by (auto simp: follows_wf_def list_all_iff)
  from row have ex: "followRepo_findOneBy s (userId cu) uid \<noteq> None"
    by (simp add: followRepo_findOneBy_None_iff)
  from ne r u ex show ?thesis
    by (auto simp: followUser_def split: option.splits)
qed

lemma followUser_no_second_row:
  assumes "list_ex (\<lambda>f. followerId f = userId cu \<and> followedId f = uid) (follows s)"
  shows "snd (followUser g cu s uid) = s"
proof -
  from assms have "followRepo_findOneBy s (userId cu) uid \<noteq> None"
    by (simp add: followRepo_findOneBy_None_iff)
  then show ?thesis
    by (auto simp: followUser_def split: option.splits)
qed

text \<open>
  Claim C8. The server starts with an empty \<^verbatim>\<open>follows\<close> table, and every later
  database is the result of a sequence of requests. In every such database that
  holds a Follow row from the caller to the target, \<open>followUser\<close> answers 409 and
  leaves the database as it was; and in every such database the (follower,
  followed) pairs of the Follow rows are pairwise distinct: the handler keeps
  follows created through it unique. In any database at all, a \<open>followUser\<close>
  call for a pair that has a row adds no row.
\<close>

theorem followUser_duplicate_rejected:
  "(follows s0 = []
      \<and> list_ex (\<lambda>f. followerId f = userId currentUser \<and> followedId f = uid)
           (follows (run env s0 rs))
      \<longrightarrow> followUser g currentUser (run env s0 rs) uid
            = (Reply 409 (Message ''You are already following this user.''), run env s0 rs))
   \<and> (follows s0 = [] \<longrightarrow> distinct (map follow_pair (follows (run env s0 rs))))
   \<and> (list_ex (\<lambda>f. followerId f = userId currentUser \<and> followedId f = uid) (follows s)
      \<longrightarrow> snd (followUser g currentUser s uid) = s)"
proof (intro conjI impI)
  assume h: "follows s0 = []
      \<and> list_ex (\<lambda>f. followerId f = userId currentUser \<and> followedId f = uid)
           (follows (run env s0 rs))"
  then have "follows_wf (run env s0 rs)"
    by (simp add: run_follows_wf empty_follows_wf)
  with h show "followUser g currentUser (run env s0 rs) uid
            = (Reply 409 (Message ''You are already following this user.''), run env s0 rs)"
    by (simp add: followUser_409)
next
  assume "follows s0 = []"
  then have "follows_wf (run env s0 rs)"
    by (simp add: run_follows_wf empty_follows_wf)
  then show "distinct (map follow_pair (follows (run env s0 rs)))"
    by (simp add: follows_wf_def)
next
  assume "list_ex (\<lambda>f. followerId f = userId currentUser \<and> followedId f = uid) (follows s)"
  then show "snd (followUser g currentUser s uid) = s"
    by (rule followUser_no_second_row)
qed

theorem followUser_duplicate_rejected_witness:
  "follows sample_store = []
   \<and> follows (run sample_env sample_store [(gen1, POST_users_follow \<lparr>userId = 1\<rparr> 2)])
       = [\<lparr>follow_id = 7, followerId = 1, followedId = 2, follow_createdAt = 400,
           follower = None, followed = None\<rparr>]
   \<and> followUser gen2 \<lparr>userId = 1\<rparr>
        (run sample_env sample_store [(gen1, POST_users_follow \<lparr>userId = 1\<rparr> 2)]) 2
       = (Reply 409 (Message ''You are already following this user.''),
          run sample_env sample_store [(gen1, POST_users_follow \<lparr>userId = 1\<rparr> 2)])
   \<and> distinct (map follow_pair
        (follows (run sample_env sample_store [(gen1, POST_users_follow \<lparr>userId = 1\<rparr> 2)])))"
proof -
  let ?rs = "[(gen1, POST_users_follow \<lparr>userId = 1\<rparr> 2)]"
  have e: "follows sample_store = []"
    by (simp add: sample_store_def)
  have r: "follows (run sample_env sample_store ?rs)
       = [\<lparr>follow_id = 7, followerId = 1, followedId = 2, follow_createdAt = 400,
           follower = None, followed = None\<rparr>]"
    by (simp add: followUser_def followRepo_save_def followRepo_findOneBy_def
        userRepo_findOneBy_id_def sample_store_def alice_def bob_def gen1_def int4_def)
  then have ex: "list_ex (\<lambda>f. followerId f = userId \<lparr>userId = 1\<rparr> \<and> followedId f = 2)
           (follows (run sample_env sample_store ?rs))"
    by simp
  note inst = followUser_duplicate_rejected [where ?s0.0 = sample_store and env = sample_env
      and rs = ?rs and currentUser = "\<lparr>userId = 1\<rparr>" and uid = 2 and g = gen2
      and s = "run sample_env sample_store ?rs"]
  from inst e ex have a: "followUser gen2 \<lparr>userId = 1\<rparr> (run sample_env sample_store ?rs) 2
       = (Reply 409 (Message ''You are already following this user.''),
          run sample_env sample_store ?rs)"
    by blast
  from inst e have d: "distinct (map follow_pair (follows (run sample_env sample_store ?rs)))"
    by blast
  from e r a d show ?thesis by (intro conjI)
qed


section \<open>Follower and following lists\<close>

lemma map_filter_profiles_zero:
  "list_all (\<lambda>p. followers p = 0 \<and> following p = 0)
     (List.map_filter (\<lambda>f. map_option profile_of_relation (rel f)) rows)"
  by (induction rows) (auto simp: List.map_filter_simps profile_of_relation_def split: option.splits)

text \<open>
  The rows \<open>followUser\<close> inserts have both relation columns null, so the join
  finds no user for them and the list the handler returns for them is empty.
\<close>

lemma map_filter_unjoined:
  "list_all (\<lambda>f. column f = None) rows
   \<Longrightarrow> List.map_filter (\<lambda>f. map_option profile_of_relation (relation_of s (column f))) rows = []"
  by (induction rows) (auto simp: List.map_filter_simps relation_of_def)

lemma getUserFollowers_unjoined:
  assumes "int4 uid" "filter (\<lambda>f. followedId f = uid) (follows s) \<noteq> []"
    "list_all (\<lambda>f. follower f = None) (follows s)"
  shows "getUserFollowers notFound s uid = (Reply 200 (ProfilesOut []), s)"
proof -
  from assms(3) have "list_all (\<lambda>f. follower f = None) (filter (\<lambda>f. followedId f = uid) (follows s))"
    by (simp add: list_all_iff)
  then have "List.map_filter (\<lambda>f. map_option profile_of_relation (relation_of s (follower f)))
               (filter (\<lambda>f. followedId f = uid) (follows s)) = []"
    by (rule map_filter_unjoined)
  with assms(1,2) show ?thesis
    by (simp add: getUserFollowers_def Let_def)
qed

text \<open>
  Claim C9 as stated fails: for a user id beyond the 32-bit id column the query
  fails, so the handlers throw instead of answering 404 although the user has
  no follower and follows nobody.
\<close>

theorem follower_lists_counterexample:
  "follows sample_store = []
   \<and> fst (getUserFollowers Responder sample_store 2147483648)
       = Thrown ''value out of range for type integer''
   \<and> fst (getUserFollowing Responder sample_store 2147483648)
       = Thrown ''value out of range for type integer''"
  by (simp add: getUserFollowers_def getUserFollowing_def int4_def sample_store_def)

text \<open>
  Claim C9, amended. For a user id within the 32-bit id column, and called with
  their \<^verbatim>\<open>notFound\<close> argument, \<open>getUserFollowers\<close> and \<open>getUserFollowing\<close> answer
  404 exactly when the table holds no Follow row for the user id in the
  respective column; the answer is then the same ``none found'' message whether
  or not the user exists, and the status does not depend on the \<^verbatim>\<open>users\<close> table
  at all. When there are such rows the answer is 200 with a list of profiles
  whose \<open>followers\<close> and \<open>following\<close> counts are all 0. For a user id beyond the
  column the handlers throw.
\<close>

theorem follower_lists_404_iff_empty:
  "(int4 uid
      \<longrightarrow> (status (fst (getUserFollowers Responder s uid)) = Some 404)
            = (filter (\<lambda>f. followedId f = uid) (follows s) = [])
        \<and> (status (fst (getUserFollowing Responder s uid)) = Some 404)
            = (filter (\<lambda>f. followerId f = uid) (follows s) = [])
        \<and> (filter (\<lambda>f. followedId f = uid) (follows s) = []
             \<longrightarrow> getUserFollowers Responder s uid
                   = (Reply 404 (Message ''No followers found for this user.''), s))
        \<and> (filter (\<lambda>f. followerId f = uid) (follows s) = []
             \<longrightarrow> getUserFollowing Responder s uid
                   = (Reply 404 (Message ''No following found for this user.''), s))
        \<and> (filter (\<lambda>f. followedId f = uid) (follows s) \<noteq> []
             \<longrightarrow> (\<exists>ps. getUserFollowers Responder s uid = (Reply 200 (ProfilesOut ps), s)
                       \<and> list_all (\<lambda>p. followers p = 0 \<and> following p = 0) ps))
        \<and> (filter (\<lambda>f. followerId f = uid) (follows s) \<noteq> []
             \<longrightarrow> (\<exists>ps. getUserFollowing Responder s uid = (Reply 200 (ProfilesOut ps), s)
                       \<and> list_all (\<lambda>p. followers p = 0 \<and> following p = 0) ps)))
   \<and> status (fst (getUserFollowers Responder (s\<lparr>users := us\<rparr>) uid))
       = status (fst (getUserFollowers Responder s uid))
   \<and> status (fst (getUserFollowing Responder (s\<lparr>users := us\<rparr>) uid))
       = status (fst (getUserFollowing Responder s uid))
   \<and> (\<not> int4 uid
      \<longrightarrow> getUserFollowers Responder s uid = (Thrown ''value out of range for type integer'', s)
        \<and> getUserFollowing Responder s uid = (Thrown ''value out of range for type integer'', s))"
  by (simp add: getUserFollowers_def getUserFollowing_def Let_def map_filter_profiles_zero)

theorem follower_lists_404_iff_empty_witness:
  "int4 1 \<and> int4 99 \<and> int4 2
   \<and> getUserFollowers Responder sample_store 1
     = (Reply 404 (Message ''No followers found for this user.''), sample_store)
   \<and> userRepo_findOneBy_id sample_store 99 = None
   \<and> getUserFollowing Responder sample_store 99
     = (Reply 404 (Message ''No following found for this user.''), sample_store)
   \<and> getUserFollowers Responder joined_follow_store 2
     = (Reply 200 (ProfilesOut
         [\<lparr>p_id = 1, p_username = ''alice'', p_bio = None, p_avatarUrl = None,
           p_createdAt = 10, followers = 0, following = 0\<rparr>]), joined_follow_store)
   \<and> getUserFollowing Responder joined_follow_store 1
     = (Reply 200 (ProfilesOut
         [\<lparr>p_id = 2, p_username = ''bob'', p_bio = Some ''hi'',
           p_avatarUrl = Some ''https://cdn/bob.png'', p_createdAt = 20,
           followers = 0, following = 0\<rparr>]), joined_follow_store)
   \<and> getUserFollowers Responder (snd (followUser gen1 \<lparr>userId = 1\<rparr> sample_store 2)) 2
     = (Reply 200 (ProfilesOut []), snd (followUser gen1 \<lparr>userId = 1\<rparr> sample_store 2))
   \<and> \<not> int4 2147483648
   \<and> getUserFollowers Responder sample_store 2147483648
     = (Thrown ''value out of range for type integer'', sample_store)"
proof -
  have r: "int4 1" "int4 99" "int4 2" "\<not> int4 2147483648"
    by (simp_all add: int4_def)
  have e1: "filter (\<lambda>f. followedId f = 1) (follows sample_store) = []"
    by (simp add: sample_store_def)
  have e2: "filter (\<lambda>f. followerId f = 99) (follows sample_store) = []"
    by (simp add: sample_store_def)
  have n: "userRepo_findOneBy_id sample_store 99 = None"
    by (simp add: userRepo_findOneBy_id_def sample_store_def alice_def bob_def)
  have n1: "filter (\<lambda>f. followedId f = 2) (follows joined_follow_store) \<noteq> []"
    by (simp add: joined_follow_store_def)
  have n2: "filter (\<lambda>f. followerId f = 1) (follows joined_follow_store) \<noteq> []"
    by (simp add: joined_follow_store_def)
  from follower_lists_404_iff_empty [of 1 sample_store "[]"] r(1) e1
  have a: "getUserFollowers Responder sample_store 1
     = (Reply 404 (Message ''No followers found for this user.''), sample_store)"
    by blast
  from follower_lists_404_iff_empty [of 99 sample_store "[]"] r(2) e2
  have b: "getUserFollowing Responder sample_store 99
     = (Reply 404 (Message ''No following found for this user.''), sample_store)"
    by blast
  from follower_lists_404_iff_empty [of 2 joined_follow_store "[]"] r(3) n1
  obtain ps where ps: "getUserFollowers Responder joined_follow_store 2
      = (Reply 200 (ProfilesOut ps), joined_follow_store)"
    "list_all (\<lambda>p. followers p = 0 \<and> following p = 0) ps"
    by blast
  have c: "getUserFollowers Responder joined_follow_store 2
     = (Reply 200 (ProfilesOut
         [\<lparr>p_id = 1, p_username = ''alice'', p_bio = None, p_avatarUrl = None,
           p_createdAt = 10, followers = 0, following = 0\<rparr>]), joined_follow_store)"
    by (simp add: getUserFollowers_def joined_follow_store_def sample_store_def relation_of_def
        relation_user_def alice_def bob_def profile_of_relation_def List.map_filter_simps int4_def)
  from follower_lists_404_iff_empty [of 1 joined_follow_store "[]"] r(1) n2
  obtain qs where qs: "getUserFollowing Responder joined_follow_store 1
      = (Reply 200 (ProfilesOut qs), joined_follow_store)"
    "list_all (\<lambda>p. followers p = 0 \<and> following p = 0) qs"
    by blast
  have d: "getUserFollowing Responder joined_follow_store 1
     = (Reply 200 (ProfilesOut
         [\<lparr>p_id = 2, p_username = ''bob'', p_bio = Some ''hi'',
           p_avatarUrl = Some ''https://cdn/bob.png'', p_createdAt = 20,
           followers = 0, following = 0\<rparr>]), joined_follow_store)"
    by (simp add: getUserFollowing_def joined_follow_store_def sample_store_def relation_of_def
        relation_user_def alice_def bob_def profile_of_relation_def List.map_filter_simps int4_def)
  have s1: "snd (followUser gen1 \<lparr>userId = 1\<rparr> sample_store 2) = followRepo_save gen1 sample_store 1 2"
    by (simp add: followUser_def followRepo_findOneBy_def userRepo_findOneBy_id_def
        sample_store_def alice_def bob_def int4_def)
  have f: "getUserFollowers Responder (snd (followUser gen1 \<lparr>userId = 1\<rparr> sample_store 2)) 2
     = (Reply 200 (ProfilesOut []), snd (followUser gen1 \<lparr>userId = 1\<rparr> sample_store 2))"
    unfolding s1
    by (rule getUserFollowers_unjoined)
       (simp_all add: followRepo_save_def sample_store_def int4_def)
  from follower_lists_404_iff_empty [of 2147483648 sample_store "[]"] r(4)
  have g: "getUserFollowers Responder sample_store 2147483648
     = (Thrown ''value out of range for type integer'', sample_store)"
    by blast
  from r a n b c d f g show ?thesis by (intro conjI)
qed


section \<open>Ordering and paging\<close>



lemma sorted_wrt_within_keys:
  "(\<And>k. sorted_wrt P (filter (\<lambda>y. f y = k) zs))
   \<Longrightarrow> sorted_wrt (\<lambda>a b. f a = f b \<longrightarrow> P a b) zs"
proof (induction zs)
  case Nil
  show ?case by simp
next
  case (Cons x xs)
  have tail: "sorted_wrt P (filter (\<lambda>y. f y = k) xs)" for k
    using Cons.prems [of k] by (cases "f x = k") simp_all
  have head: "\<forall>y\<in>set xs. f x = f y \<longrightarrow> P x y"
    using Cons.prems [of "f x"] by auto
  from head Cons.IH [OF tail] show ?case by simp
qed

text \<open>Rows of equal creation time come in ascending id order.\<close>

lemma order_createdAt_DESC_ties:
  "sorted_wrt (\<lambda>a b. createdAt a = createdAt b \<longrightarrow> ident a \<le> ident b)
     (order_createdAt_DESC createdAt ident rows)"
proof -
  have "sorted_wrt (\<lambda>a b. ident a \<le> ident b)
          (filter (\<lambda>y. - createdAt y = k) (order_createdAt_DESC createdAt ident rows))" for k
  proof -
    have "filter (\<lambda>y. - createdAt y = k) (order_createdAt_DESC createdAt ident rows)
            = filter (\<lambda>y. - createdAt y = k) (sort_key ident rows)"
      unfolding order_createdAt_DESC_def by (rule sort_key_stable)
    moreover have "sorted (map ident (sort_key ident rows))"
      by (rule sorted_sort_key)
    then have "sorted_wrt (\<lambda>a b. ident a \<le> ident b) (sort_key ident rows)"
      by (simp add: sorted_wrt_map)
    ultimately show ?thesis
      by (simp add: sorted_wrt_filter)
  qed
  then have "sorted_wrt (\<lambda>a b. - createdAt a = - createdAt b \<longrightarrow> ident a \<le> ident b)
     (order_createdAt_DESC createdAt ident rows)"
    by (rule sorted_wrt_within_keys)
  then show ?thesis by simp
qed




lemma take_skip_sorted:
  "sorted_wrt P rows \<Longrightarrow> take_skip limit offset rows = Inr page \<Longrightarrow> sorted_wrt P page"
  by (auto simp: take_skip_def split: if_splits)




section \<open>The feed\<close>











section \<open>Search\<close>


lemma split_ws_not_Nil: "split_ws s \<noteq> []"
  by (induction s rule: split_ws.induct) (auto split: list.splits)






lemma concat_split_ws: "concat (split_ws s) = filter (\<lambda>c. \<not> isSpace c) s"
proof (induction s rule: split_ws.induct)
  case 1
  show ?case by simp
next
  case (2 c cs)
  show ?case
  proof (cases "isSpace c")
    case True
    have "filter (\<lambda>c. \<not> isSpace c) (dropWhile isSpace cs) = filter (\<lambda>c. \<not> isSpace c) cs"
      by (induction cs) auto
    with True 2 show ?thesis by simp
  next
    case False
    obtain w ws where w: "split_ws cs = w # ws"
      using split_ws_not_Nil [of cs] by (cases "split_ws cs") auto
    with False 2 show ?thesis by simp
  qed
qed






















end
